theory Spec2Isabelle
  imports Complex_Main "HOL-Library.AList"
begin

section \<open>Python strings\<close>

text \<open>
  A Python \<open>str\<close> is modelled as a \<open>string\<close> (a list of characters). The character
  classes below are those of CPython on the ASCII range, which is where every flag,
  setting name and tag of the program lives: \<open>str.isspace\<close> (used by \<open>str.strip\<close> and by
  the regular expression class \<open>\\s\<close>) holds for the code points 9 to 13 and 28 to 32, the
  class \<open>\\d\<close> holds for the digits 0 to 9, and \<open>str.lower\<close> and \<open>str.upper\<close> exchange A-Z and
  a-z. Characters above 127 are passed through unchanged.
\<close>

definition is_space :: "char \<Rightarrow> bool" where
  "is_space c = (let n = (of_char c :: nat) in (9 \<le> n \<and> n \<le> 13) \<or> (28 \<le> n \<and> n \<le> 32))"

definition is_digit :: "char \<Rightarrow> bool" where
  "is_digit c = (let n = (of_char c :: nat) in 48 \<le> n \<and> n \<le> 57)"

definition digit_val :: "char \<Rightarrow> nat" where
  "digit_val c = of_char c - 48"

definition lower_char :: "char \<Rightarrow> char" where
  "lower_char c = (let n = (of_char c :: nat) in if 65 \<le> n \<and> n \<le> 90 then char_of (n + 32) else c)"

definition upper_char :: "char \<Rightarrow> char" where
  "upper_char c = (let n = (of_char c :: nat) in if 97 \<le> n \<and> n \<le> 122 then char_of (n - 32) else c)"

text \<open>\<open>s.lower()\<close> and \<open>s.upper()\<close>\<close>

definition lower :: "string \<Rightarrow> string" where
  "lower s = map lower_char s"

definition upper :: "string \<Rightarrow> string" where
  "upper s = map upper_char s"

text \<open>\<open>s.lstrip()\<close>, \<open>s.rstrip()\<close>, \<open>s.strip()\<close> and \<open>s.rstrip('\\n')\<close>\<close>

definition lstrip :: "string \<Rightarrow> string" where
  "lstrip s = dropWhile is_space s"

definition rstrip :: "string \<Rightarrow> string" where
  "rstrip s = rev (dropWhile is_space (rev s))"

definition strip :: "string \<Rightarrow> string" where
  "strip s = rstrip (lstrip s)"

definition rstrip_nl :: "string \<Rightarrow> string" where
  "rstrip_nl s = rev (dropWhile (\<lambda>c. c = CHR 0x0A) (rev s))"

text \<open>\<open>s.startswith(p)\<close>, \<open>s.endswith(p)\<close> and \<open>p in s\<close>\<close>

definition startswith :: "string \<Rightarrow> string \<Rightarrow> bool" where
  "startswith s p = (take (length p) s = p)"

definition endswith :: "string \<Rightarrow> string \<Rightarrow> bool" where
  "endswith s p = (length p \<le> length s \<and> drop (length s - length p) s = p)"

fun contains :: "string \<Rightarrow> string \<Rightarrow> bool" where
  "contains [] p = (p = [])"
| "contains (c # cs) p = (startswith (c # cs) p \<or> contains cs p)"

text \<open>
  \<open>int(s)\<close> on a string of decimal digits, most significant first, and the general
  \<open>int(s)\<close> of Python: surrounding whitespace is dropped (on ASCII text the code
  points 9 to 13 and 32 only), one sign is allowed, and single underscores may separate
  digits. Anything else raises \<open>ValueError\<close>, here \<open>None\<close>. So does a string with more
  than 4300 digits, the default limit of \<open>sys.get_int_max_str_digits()\<close>: the limit counts the
  digit characters, leading zeros included, and not the sign, the whitespace or the
  underscores.
\<close>

definition is_c_space :: "char \<Rightarrow> bool" where
  "is_c_space c = (let n = (of_char c :: nat) in (9 \<le> n \<and> n \<le> 13) \<or> n = 32)"

definition digits_to_nat :: "string \<Rightarrow> nat" where
  "digits_to_nat ds = foldl (\<lambda>acc c. 10 * acc + digit_val c) 0 ds"

fun split_on :: "char \<Rightarrow> string \<Rightarrow> string list" where
  "split_on d [] = [[]]"
| "split_on d (c # cs) =
     (case split_on d cs of
        [] \<Rightarrow> (if c = d then [[], []] else [[c]])
      | p # ps \<Rightarrow> (if c = d then [] # p # ps else (c # p) # ps))"

definition max_str_digits :: nat where
  "max_str_digits = 4300"

definition int_body :: "string \<Rightarrow> nat option" where
  "int_body s =
     (let groups = split_on CHR ''_'' s
      in if list_all (\<lambda>g. g \<noteq> [] \<and> list_all is_digit g) groups
            \<and> length (concat groups) \<le> max_str_digits
         then Some (digits_to_nat (concat groups)) else None)"

definition py_int :: "string \<Rightarrow> int option" where
  "py_int s =
     (case rev (dropWhile is_c_space (rev (dropWhile is_c_space s))) of
        [] \<Rightarrow> None
      | c # cs \<Rightarrow>
          if c = CHR ''-'' then map_option (\<lambda>n. - int n) (int_body cs)
          else if c = CHR ''+'' then map_option int (int_body cs)
          else map_option int (int_body (c # cs)))"

section \<open>The data model (models.py)\<close>

datatype RecommendationSeverity = CRITICAL | WARNING | INFO

record SparkConfig =
  source_file :: string
  driver_memory :: "string option"
  executor_memory :: "string option"
  executor_cores :: "int option"
  num_executors :: "int option"
  default_parallelism :: "int option"
  shuffle_partitions :: "int option"
  dynamic_allocation_enabled :: bool
  app_name :: "string option"
  deploy_mode :: "string option"
  master :: "string option"
  raw_configs :: "(string \<times> string) list"

text \<open>
  \<open>ExecutionMetrics\<close>; its \<open>app_name\<close> is \<open>metrics_app_name\<close> here, and the opaque
  \<open>raw_metrics\<close> payload, which the analyzer never reads, is left out.
\<close>

record ExecutionMetrics =
  app_id :: string
  metrics_app_name :: string
  duration_ms :: "int option"
  total_tasks :: int
  failed_tasks :: int
  total_stages :: int
  failed_stages :: int
  executor_memory_used :: "int option"
  executor_memory_spilled :: "int option"
  shuffle_read_bytes :: "int option"
  shuffle_write_bytes :: "int option"
  input_bytes :: "int option"
  output_bytes :: "int option"
  peak_memory_usage :: "int option"
  gc_time_ms :: "int option"

record Recommendation =
  severity :: RecommendationSeverity
  category :: string
  title :: string
  description :: string
  current_value :: "string option"
  recommended_value :: "string option"
  expected_impact :: "string option"

record AnalysisResult =
  config :: SparkConfig
  metrics :: "ExecutionMetrics option"
  recommendations :: "Recommendation list"
  summary :: string
  analyzed_at :: "string option"

text \<open>\<open>SparkConfig(source_file=file_path)\<close>: every other field at its default.\<close>

definition new_config :: "string \<Rightarrow> SparkConfig" where
  "new_config file_path =
     \<lparr> source_file = file_path, driver_memory = None, executor_memory = None,
       executor_cores = None, num_executors = None, default_parallelism = None,
       shuffle_partitions = None, dynamic_allocation_enabled = False, app_name = None,
       deploy_mode = None, master = None, raw_configs = [] \<rparr>"

section \<open>Files\<close>

text \<open>
  The file system is a finite table from paths to the text of the file at that path,
  as \<open>open(file_path, 'r')\<close> delivers it (line ends already translated to the newline
  character). \<open>os.path.exists(file_path)\<close> is \<open>map_of fs file_path \<noteq> None\<close>.
\<close>

type_synonym filesystem = "(string \<times> string) list"

text \<open>
  The exceptions the parsers can raise. A loop whose body may raise stops at the first
  exception: \<open>for_each\<close> runs the body over the items, threading the state.
\<close>

datatype py_error = ValueError | IndexError

fun for_each :: "('s \<Rightarrow> 'a \<Rightarrow> py_error + 's) \<Rightarrow> 's \<Rightarrow> 'a list \<Rightarrow> py_error + 's" where
  "for_each body st [] = Inr st"
| "for_each body st (x # xs) =
     (case body st x of
        Inl e \<Rightarrow> Inl e
      | Inr st' \<Rightarrow> for_each body st' xs)"

definition newline :: char where
  "newline = CHR 0x0A"

definition backslash :: char where
  "backslash = CHR 0x5C"

text \<open>\<open>f.readlines()\<close> and \<open>for line in f\<close>: the lines, each with its newline.\<close>

fun readlines :: "string \<Rightarrow> string list" where
  "readlines [] = []"
| "readlines (c # cs) =
     (if c = newline then [c] # readlines cs
      else (case readlines cs of [] \<Rightarrow> [[c]] | l # ls \<Rightarrow> (c # l) # ls))"

text \<open>\<open>sep.join(xs)\<close>\<close>

fun join_str :: "string \<Rightarrow> string list \<Rightarrow> string" where
  "join_str sep [] = []"
| "join_str sep [x] = x"
| "join_str sep (x # y # ys) = x @ sep @ join_str sep (y # ys)"

section \<open>SparkConfigParser.parse_spark_defaults (spark_config_parser.py)\<close>

text \<open>
  \<open>re.split(r'\\s+|=', line, maxsplit=1)\<close>: the leftmost character that is whitespace
  or \<open>=\<close> starts the only separator; a whitespace separator extends over the whole run
  of whitespace (the alternative \<open>\\s+\<close> is tried first and is greedy), an \<open>=\<close> is
  one character. Without a separator the result is the line alone.
\<close>

definition re_split1 :: "string \<Rightarrow> string list" where
  "re_split1 line =
     (let pre = takeWhile (\<lambda>c. \<not> is_space c \<and> c \<noteq> CHR ''='') line
      in case drop (length pre) line of
           [] \<Rightarrow> [line]
         | c # cs \<Rightarrow> if is_space c then [pre, dropWhile is_space cs] else [pre, cs])"

text \<open>The \<open>if\<close>/\<open>elif\<close> chain that promotes a known key; \<open>int(value)\<close> may raise.\<close>

definition promote_default :: "SparkConfig \<Rightarrow> string \<Rightarrow> string \<Rightarrow> py_error + SparkConfig" where
  "promote_default cfg key val =
     (if key = ''spark.driver.memory'' then Inr (cfg\<lparr>driver_memory := Some val\<rparr>)
      else if key = ''spark.executor.memory'' then Inr (cfg\<lparr>executor_memory := Some val\<rparr>)
      else if key = ''spark.executor.cores'' then
        (case py_int val of None \<Rightarrow> Inl ValueError
         | Some n \<Rightarrow> Inr (cfg\<lparr>executor_cores := Some n\<rparr>))
      else if key = ''spark.executor.instances'' then
        (case py_int val of None \<Rightarrow> Inl ValueError
         | Some n \<Rightarrow> Inr (cfg\<lparr>num_executors := Some n\<rparr>))
      else if key = ''spark.default.parallelism'' then
        (case py_int val of None \<Rightarrow> Inl ValueError
         | Some n \<Rightarrow> Inr (cfg\<lparr>default_parallelism := Some n\<rparr>))
      else if key = ''spark.sql.shuffle.partitions'' then
        (case py_int val of None \<Rightarrow> Inl ValueError
         | Some n \<Rightarrow> Inr (cfg\<lparr>shuffle_partitions := Some n\<rparr>))
      else if key = ''spark.dynamicAllocation.enabled'' then
        Inr (cfg\<lparr>dynamic_allocation_enabled := (lower val = ''true'')\<rparr>)
      else if key = ''spark.app.name'' then Inr (cfg\<lparr>app_name := Some val\<rparr>)
      else Inr cfg)"

text \<open>
  The body of the loop over the lines of the file. Its first half gives the key and
  the value of a line, or \<open>None\<close> where the loop goes on to the next line (\<open>continue\<close>);
  its second half stores the pair and promotes it.
\<close>

definition line_setting :: "string \<Rightarrow> (string \<times> string) option" where
  "line_setting raw_line =
     (let line = strip raw_line
      in if line = [] \<or> startswith line ''#'' then None
         else (case re_split1 line of
                 [p0, p1] \<Rightarrow> Some (strip p0, strip p1)
               | _ \<Rightarrow> None))"

definition defaults_line :: "SparkConfig \<Rightarrow> string \<Rightarrow> py_error + SparkConfig" where
  "defaults_line cfg raw_line =
     (case line_setting raw_line of
        None \<Rightarrow> Inr cfg
      | Some (key, val) \<Rightarrow>
          promote_default
            (cfg\<lparr>raw_configs := AList.update key val (raw_configs cfg)\<rparr>) key val)"

definition parse_spark_defaults :: "filesystem \<Rightarrow> string \<Rightarrow> py_error + SparkConfig" where
  "parse_spark_defaults fs file_path =
     (case map_of fs file_path of
        None \<Rightarrow> Inr (new_config file_path)
      | Some content \<Rightarrow> for_each defaults_line (new_config file_path) (readlines content))"

section \<open>SparkConfigParser.parse_spark_submit_script (spark_config_parser.py)\<close>

text \<open>
  The two nested \<open>while\<close> loops that join continued lines, as one recursion: \<open>line\<close>
  is the logical line under construction and the list holds the physical lines not
  yet read. A line that ends in a backslash takes the next physical line, when there
  is one; otherwise it is appended and the next physical line starts a new one.
\<close>

fun join_loop :: "string \<Rightarrow> string list \<Rightarrow> string list" where
  "join_loop line [] = [line]"
| "join_loop line (nxt # rest) =
     (if endswith line [backslash]
      then join_loop (strip (butlast line) @ '' '' @ rstrip_nl (strip nxt)) rest
      else line # join_loop (rstrip_nl nxt) rest)"

definition join_lines :: "string list \<Rightarrow> string list" where
  "join_lines lines = (case lines of [] \<Rightarrow> [] | l # ls \<Rightarrow> join_loop (rstrip_nl l) ls)"

text \<open>
  \<open>re.search(pattern, s)\<close>: the match at the leftmost position where the pattern
  matches; \<open>m\<close> is the match of the pattern at the start of a string.
\<close>

fun re_search :: "(string \<Rightarrow> 'a option) \<Rightarrow> string \<Rightarrow> 'a option" where
  "re_search m [] = m []"
| "re_search m (c # cs) = (case m (c # cs) of Some g \<Rightarrow> Some g | None \<Rightarrow> re_search m cs)"

text \<open>
  The patterns \<open>flag\\s+(\\S+)\<close> and \<open>flag\\s+(\\d+)\<close> at the start of a string: the
  flag, one or more whitespace characters, and the longest non-empty run of characters
  of the class, which is the group. No character of either class is whitespace, so a
  shorter whitespace run never gives a match that the longest one does not.
\<close>

definition match_flag :: "string \<Rightarrow> (char \<Rightarrow> bool) \<Rightarrow> string \<Rightarrow> string option" where
  "match_flag flag cls s =
     (if startswith s flag
      then (let r = drop (length flag) s;
                ws = takeWhile is_space r;
                g = takeWhile cls (dropWhile is_space r)
            in if ws \<noteq> [] \<and> g \<noteq> [] then Some g else None)
      else None)"

definition non_space :: "char \<Rightarrow> bool" where
  "non_space c = (\<not> is_space c)"

text \<open>
  \<open>APP_NAME=["\\'](.*?)["\\']\<close> at the start of a string: the group is lazy, so it
  ends at the first quote character that follows; \<open>.\<close> does not match a newline.
\<close>

definition is_quote :: "char \<Rightarrow> bool" where
  "is_quote c = (c = CHR 0x22 \<or> c = CHR 0x27)"

definition match_app_name :: "string \<Rightarrow> string option" where
  "match_app_name s =
     (if startswith s ''APP_NAME=''
      then (case drop 9 s of
              [] \<Rightarrow> None
            | q # r \<Rightarrow>
                if is_quote q
                then (let g = takeWhile (\<lambda>c. \<not> is_quote c \<and> c \<noteq> newline) r
                      in case drop (length g) r of
                           [] \<Rightarrow> None
                         | c # _ \<Rightarrow> if is_quote c then Some g else None)
                else None)
      else None)"

text \<open>
  \<open>--conf\\s+([^\\s=]+)=(\\S+)\<close> at the start of a string: the key is the longest run
  of characters that are neither whitespace nor \<open>=\<close>, it must be followed by \<open>=\<close>, and
  the value is the longest run of non-whitespace characters. The result carries the
  length of the match.
\<close>

definition match_conf :: "string \<Rightarrow> (string \<times> string \<times> nat) option" where
  "match_conf s =
     (if startswith s ''--conf''
      then (let r1 = drop 6 s;
                ws = takeWhile is_space r1;
                r2 = dropWhile is_space r1;
                key = takeWhile (\<lambda>c. \<not> is_space c \<and> c \<noteq> CHR ''='') r2
            in if ws = [] \<or> key = [] then None
               else (case drop (length key) r2 of
                       [] \<Rightarrow> None
                     | c # r4 \<Rightarrow>
                         if c \<noteq> CHR ''='' then None
                         else (let val = takeWhile non_space r4
                               in if val = [] then None
                                  else Some (key, val,
                                         6 + length ws + length key + 1 + length val))))
      else None)"

text \<open>\<open>re.finditer(conf_pattern, s)\<close>: the matches from left to right, without overlap.\<close>

fun finditer_conf :: "string \<Rightarrow> (string \<times> string) list" where
  "finditer_conf [] = []"
| "finditer_conf (c # cs) =
     (case match_conf (c # cs) of
        Some (key, val, n) \<Rightarrow> (key, val) # finditer_conf (drop (n - 1) cs)
      | None \<Rightarrow> finditer_conf cs)"

text \<open>The body of the loop over the \<open>--conf\<close> matches.\<close>

definition conf_step :: "SparkConfig \<Rightarrow> string \<times> string \<Rightarrow> py_error + SparkConfig" where
  "conf_step cfg kv =
     (let key = fst kv; val = snd kv;
          cfg = cfg\<lparr>raw_configs := AList.update key val (raw_configs cfg)\<rparr>
      in if key = ''spark.default.parallelism'' then
           (case py_int val of None \<Rightarrow> Inl ValueError
            | Some n \<Rightarrow> Inr (cfg\<lparr>default_parallelism := Some n\<rparr>))
         else if key = ''spark.sql.shuffle.partitions'' then
           (case py_int val of None \<Rightarrow> Inl ValueError
            | Some n \<Rightarrow> Inr (cfg\<lparr>shuffle_partitions := Some n\<rparr>))
         else if key = ''spark.dynamicAllocation.enabled'' then
           Inr (cfg\<lparr>dynamic_allocation_enabled := (lower val = ''true'')\<rparr>)
         else Inr cfg)"

text \<open>
  The loop over \<open>patterns.items()\<close>, in the order of the dictionary: a pattern is the
  attribute it sets, its flag, the class of its group, and whether the group goes
  through \<open>int(value)\<close>.
\<close>

datatype pattern_key =
  Master | Deploy_mode | Driver_memory | Executor_memory | Executor_cores | Num_executors

definition patterns :: "(pattern_key \<times> string \<times> (char \<Rightarrow> bool)) list" where
  "patterns =
     [(Master, ''--master'', non_space),
      (Deploy_mode, ''--deploy-mode'', non_space),
      (Driver_memory, ''--driver-memory'', non_space),
      (Executor_memory, ''--executor-memory'', non_space),
      (Executor_cores, ''--executor-cores'', is_digit),
      (Num_executors, ''--num-executors'', is_digit)]"

definition pattern_step ::
  "string \<Rightarrow> SparkConfig \<Rightarrow> pattern_key \<times> string \<times> (char \<Rightarrow> bool) \<Rightarrow> py_error + SparkConfig" where
  "pattern_step full_command cfg pat =
     (case re_search (match_flag (fst (snd pat)) (snd (snd pat))) full_command of
        None \<Rightarrow> Inr cfg
      | Some v \<Rightarrow>
          (case fst pat of
             Master \<Rightarrow> Inr (cfg\<lparr>master := Some v\<rparr>)
           | Deploy_mode \<Rightarrow> Inr (cfg\<lparr>deploy_mode := Some v\<rparr>)
           | Driver_memory \<Rightarrow> Inr (cfg\<lparr>driver_memory := Some v\<rparr>)
           | Executor_memory \<Rightarrow> Inr (cfg\<lparr>executor_memory := Some v\<rparr>)
           | Executor_cores \<Rightarrow>
               (case py_int v of None \<Rightarrow> Inl ValueError
                | Some n \<Rightarrow> Inr (cfg\<lparr>executor_cores := Some n\<rparr>))
           | Num_executors \<Rightarrow>
               (case py_int v of None \<Rightarrow> Inl ValueError
                | Some n \<Rightarrow> Inr (cfg\<lparr>num_executors := Some n\<rparr>))))"

text \<open>\<open>if not config.app_name\<close>: the name is \<open>None\<close> or the empty string.\<close>

definition name_fallback :: "SparkConfig \<Rightarrow> string \<Rightarrow> SparkConfig" where
  "name_fallback cfg full_command =
     (if app_name cfg = None \<or> app_name cfg = Some []
      then (case re_search (match_flag ''--name'' non_space) full_command of
              Some v \<Rightarrow> cfg\<lparr>app_name := Some v\<rparr> | None \<Rightarrow> cfg)
      else cfg)"

definition parse_spark_submit_script :: "filesystem \<Rightarrow> string \<Rightarrow> py_error + SparkConfig" where
  "parse_spark_submit_script fs file_path =
     (case map_of fs file_path of
        None \<Rightarrow> Inr (new_config file_path)
      | Some content \<Rightarrow>
          (let cfg = new_config file_path;
               full_command = join_str '' '' (join_lines (readlines content));
               cfg = (case re_search match_app_name full_command of
                           Some v \<Rightarrow> cfg\<lparr>app_name := Some v\<rparr> | None \<Rightarrow> cfg)
           in case for_each (pattern_step full_command) cfg patterns of
                Inl e \<Rightarrow> Inl e
              | Inr cfg1 \<Rightarrow>
                  (case for_each conf_step cfg1 (finditer_conf full_command) of
                     Inl e \<Rightarrow> Inl e
                   | Inr cfg2 \<Rightarrow> Inr (name_fallback cfg2 full_command))))"

section \<open>SparkConfigParser.parse_file (spark_config_parser.py)\<close>

definition parse_file :: "filesystem \<Rightarrow> string \<Rightarrow> py_error + SparkConfig" where
  "parse_file fs file_path =
     (if endswith file_path ''spark-defaults.conf'' then parse_spark_defaults fs file_path
      else if endswith file_path ''.sh'' then parse_spark_submit_script fs file_path
      else (case map_of fs file_path of
              Some content \<Rightarrow>
                if contains content ''spark-submit''
                then parse_spark_submit_script fs file_path
                else parse_spark_defaults fs file_path
            | None \<Rightarrow> parse_spark_defaults fs file_path))"

section \<open>ConfigAnalyzer._parse_memory_mb (config_analyzer.py)\<close>

text \<open>
  \<open>re.match(r'(\\d+)([kmgt]?)', memory_str.lower())\<close>: the longest run of digits at the
  start of the string, which must not be empty, followed by at most one of the letters
  k, m, g, t. Both groups are greedy and the second may be empty, so there is nothing
  to backtrack into. The run of digits goes through \<open>int\<close>; it is taken within the
  limit of 4300 digits, beyond which \<open>int\<close> raises \<open>ValueError\<close>.
\<close>

definition match_memory :: "string \<Rightarrow> (string \<times> string) option" where
  "match_memory s =
     (let ds = takeWhile is_digit s; r = dropWhile is_digit s
      in if ds = [] then None
         else (case r of
                 [] \<Rightarrow> Some (ds, [])
               | c # _ \<Rightarrow> if c \<in> set ''kmgt'' then Some (ds, [c]) else Some (ds, [])))"

text \<open>\<open>multipliers.get(unit, 1)\<close> for \<open>{'': 1, 'k': 1, 'm': 1, 'g': 1024, 't': 1024*1024}\<close>\<close>

definition multipliers :: "string \<Rightarrow> int" where
  "multipliers unit =
     (if unit = '''' then 1 else if unit = ''k'' then 1 else if unit = ''m'' then 1
      else if unit = ''g'' then 1024 else if unit = ''t'' then 1024 * 1024 else 1)"

definition parse_memory_mb :: "string \<Rightarrow> int option" where
  "parse_memory_mb memory_str =
     (case match_memory (lower memory_str) of
        None \<Rightarrow> None
      | Some (ds, unit) \<Rightarrow> Some (int (digits_to_nat ds) * multipliers unit))"

text \<open>\<open>str(n)\<close> for an integer, within the same limit on the number of digits.\<close>

fun nat_digits :: "nat \<Rightarrow> string" where
  "nat_digits n =
     (if n < 10 then [char_of (48 + n)] else nat_digits (n div 10) @ [char_of (48 + n mod 10)])"

declare nat_digits.simps [simp del]

definition str_int :: "int \<Rightarrow> string" where
  "str_int i = (if i < 0 then CHR ''-'' # nat_digits (nat (- i)) else nat_digits (nat i))"

section \<open>ConfigAnalyzer._rule_based_analysis (config_analyzer.py)\<close>

text \<open>
  The rules divide integers with \<open>/\<close>, which gives the double nearest to the exact
  quotient, and compare the double with a constant. Both comparisons are decided on the
  exact quotient, a rational:
  \<^item> \<open>input_gb < 10\<close>: the quotient by \<open>1024**3\<close> is below 10 exactly when its double
    is, since 10 is a double and rounding is monotone;
  \<^item> \<open>spill_ratio > 0.1\<close>: the constant is the double \<open>7205759403792794 / 2^56\<close>, whose
    significand is even, so the double of a quotient lies above it exactly when the
    quotient lies above the midpoint to the next double, \<open>14411518807585589 / 2^57\<close>.
  Byte counts are taken below the range of a double (about \<open>1.8e308\<close>), beyond which
  \<open>/\<close> raises \<open>OverflowError\<close>.
\<close>

definition less_than_10 :: "rat \<Rightarrow> bool" where
  "less_than_10 q = (q < 10)"

definition greater_than_tenth :: "rat \<Rightarrow> bool" where
  "greater_than_tenth q = (q > 14411518807585589 / 2 ^ 57)"

text \<open>The four \<open>Recommendation(...)\<close> values that the checks append.\<close>

definition excessive_driver_memory :: "string \<Rightarrow> Recommendation" where
  "excessive_driver_memory dm =
     \<lparr> severity = CRITICAL,
       category = ''resource_allocation'',
       title = ''Excessive Driver Memory'',
       description = ''Driver memory is oversized for typical workloads. This wastes resources and increases costs.'',
       current_value = Some dm,
       recommended_value = Some ''2g-4g'',
       expected_impact = Some ''Reduce resource waste and costs by 50-75%'' \<rparr>"

definition inefficient_shuffle_partitions :: "int \<Rightarrow> Recommendation" where
  "inefficient_shuffle_partitions sp =
     \<lparr> severity = WARNING,
       category = ''performance_tuning'',
       title = ''Inefficient Shuffle Partitions'',
       description = ''Too many shuffle partitions for dataset size causes overhead.'',
       current_value = Some (str_int sp),
       recommended_value = Some ''50-100'',
       expected_impact = Some ''Reduce shuffle overhead by 30-40%'' \<rparr>"

definition enable_dynamic_allocation :: Recommendation where
  "enable_dynamic_allocation =
     \<lparr> severity = INFO,
       category = ''best_practices'',
       title = ''Enable Dynamic Allocation'',
       description = ''Dynamic allocation can optimize resource usage automatically.'',
       current_value = Some ''false'',
       recommended_value = Some ''true'',
       expected_impact = Some ''Better resource utilization and cost savings'' \<rparr>"

definition high_memory_spilling :: "string \<Rightarrow> Recommendation" where
  "high_memory_spilling em =
     \<lparr> severity = WARNING,
       category = ''performance_tuning'',
       title = ''High Memory Spilling'',
       description = ''Significant memory spilling detected. Increase executor memory.'',
       current_value = Some em,
       recommended_value = Some ''Increase by 50%'',
       expected_impact = Some ''Reduce disk I/O and improve performance by 20-30%'' \<rparr>"

text \<open>Check driver memory.\<close>

definition check_driver_memory :: "SparkConfig \<Rightarrow> Recommendation list" where
  "check_driver_memory cfg =
     (case driver_memory cfg of
        None \<Rightarrow> []
      | Some dm \<Rightarrow>
          if dm = [] then []
          else (case parse_memory_mb dm of
                  None \<Rightarrow> []
                | Some driver_mb \<Rightarrow>
                    if driver_mb \<noteq> 0 \<and> driver_mb > 10240
                    then [excessive_driver_memory dm]
                    else []))"

text \<open>Check shuffle partitions.\<close>

definition check_shuffle_partitions ::
  "SparkConfig \<Rightarrow> ExecutionMetrics option \<Rightarrow> Recommendation list" where
  "check_shuffle_partitions cfg mtr =
     (case shuffle_partitions cfg of
        None \<Rightarrow> []
      | Some sp \<Rightarrow>
          if sp \<noteq> 0 \<and> sp > 200
          then (case mtr of
                  None \<Rightarrow> []
                | Some m \<Rightarrow>
                    (case input_bytes m of
                       None \<Rightarrow> []
                     | Some ib \<Rightarrow>
                         if ib \<noteq> 0 \<and> less_than_10 (of_int ib / 1024 ^ 3)
                         then [inefficient_shuffle_partitions sp]
                         else []))
          else [])"

text \<open>Check dynamic allocation.\<close>

definition check_dynamic_allocation :: "SparkConfig \<Rightarrow> Recommendation list" where
  "check_dynamic_allocation cfg =
     (if \<not> dynamic_allocation_enabled cfg
      then [enable_dynamic_allocation]
      else [])"

text \<open>
  Check memory spilling. \<open>metrics.executor_memory_used or 1\<close> is 1 for \<open>None\<close> and
  for 0, and \<open>config.executor_memory or "unknown"\<close> is \<open>"unknown"\<close> for \<open>None\<close> and for
  the empty string.
\<close>

definition check_memory_spilling ::
  "SparkConfig \<Rightarrow> ExecutionMetrics option \<Rightarrow> Recommendation list" where
  "check_memory_spilling cfg mtr =
     (case mtr of
        None \<Rightarrow> []
      | Some m \<Rightarrow>
          (case executor_memory_spilled m of
             None \<Rightarrow> []
           | Some spilled \<Rightarrow>
               if spilled = 0 then []
               else (let used = (case executor_memory_used m of
                                   None \<Rightarrow> 1 | Some u \<Rightarrow> if u = 0 then 1 else u);
                         spill_ratio = of_int spilled / of_int (max used 1)
                     in if greater_than_tenth spill_ratio
                        then [high_memory_spilling
                                (case executor_memory cfg of
                                   None \<Rightarrow> ''unknown''
                                 | Some em \<Rightarrow> if em = [] then ''unknown'' else em)]
                        else [])))"

text \<open>The four checks append to one list, in this order.\<close>

definition rule_based_analysis ::
  "SparkConfig \<Rightarrow> ExecutionMetrics option \<Rightarrow> Recommendation list" where
  "rule_based_analysis cfg mtr =
     check_driver_memory cfg @ check_shuffle_partitions cfg mtr
       @ check_dynamic_allocation cfg @ check_memory_spilling cfg mtr"

section \<open>ConfigAnalyzer._parse_openai_response (config_analyzer.py)\<close>

text \<open>\<open>s.replace(old, new)\<close>: the occurrences of \<open>old\<close> from left to right, without overlap.\<close>

fun str_replace :: "string \<Rightarrow> string \<Rightarrow> string \<Rightarrow> string" where
  "str_replace old new [] = (if old = [] then new else [])"
| "str_replace old new (c # cs) =
     (if old = [] then new @ c # str_replace old new cs
      else if startswith (c # cs) old then new @ str_replace old new (drop (length old - 1) cs)
      else c # str_replace old new cs)"

text \<open>
  \<open>s.split(d, 1)[1]\<close>: the text after the first \<open>d\<close>; without a \<open>d\<close> the list has one
  element and the index raises.
\<close>

definition text_after :: "char \<Rightarrow> string \<Rightarrow> string" where
  "text_after d s = drop 1 (dropWhile (\<lambda>c. c \<noteq> d) s)"

definition split1_second :: "char \<Rightarrow> string \<Rightarrow> py_error + string" where
  "split1_second d s = (if d \<in> set s then Inr (text_after d s) else Inl IndexError)"

text \<open>The condition under which a line is taken as the summary.\<close>

definition takes_summary :: "string \<Rightarrow> string \<Rightarrow> bool" where
  "takes_summary smry line =
     ((contains (upper line) ''SUMMARY''
         \<or> (smry = [] \<and> line \<noteq> [] \<and> \<not> startswith line ''['' \<and> \<not> startswith line ''#''))
      \<and> (smry = [] \<and> line \<noteq> []
           \<and> \<not> list_ex (\<lambda>x. contains (upper line) x)
                  [''CRITICAL'', ''WARNING'', ''INFO'', ''SUGGESTION'']))"

text \<open>The \<open>if\<close>/\<open>elif\<close> chain on the tag; \<open>None\<close> is the \<open>continue\<close> of the last branch.\<close>

definition line_severity :: "string \<Rightarrow> RecommendationSeverity option" where
  "line_severity line =
     (if startswith line ''[CRITICAL]'' then Some CRITICAL
      else if startswith line ''[WARNING]'' then Some WARNING
      else if startswith line ''[INFO]'' then Some INFO
      else None)"

text \<open>
  The body of the loop over \<open>parts[2:]\<close>; the state is \<open>(current_value,
  recommended_value, impact)\<close>.
\<close>

definition scan_part ::
  "string option \<times> string option \<times> string option \<Rightarrow> string
     \<Rightarrow> py_error + string option \<times> string option \<times> string option" where
  "scan_part st raw_part =
     (let part = strip raw_part
      in if startswith (lower part) ''current:''
         then (case split1_second CHR '':'' part of
                 Inl e \<Rightarrow> Inl e
               | Inr v \<Rightarrow> Inr (Some (strip v), fst (snd st), snd (snd st)))
         else if startswith (lower part) ''recommended:''
         then (case split1_second CHR '':'' part of
                 Inl e \<Rightarrow> Inl e
               | Inr v \<Rightarrow> Inr (fst st, Some (strip v), snd (snd st)))
         else if startswith (lower part) ''impact:''
         then (case split1_second CHR '':'' part of
                 Inl e \<Rightarrow> Inl e
               | Inr v \<Rightarrow> Inr (fst st, fst (snd st), Some (strip v)))
         else Inr st)"

text \<open>The recommendation built from a tagged line that has at least two segments.\<close>

definition line_recommendation ::
  "RecommendationSeverity \<Rightarrow> string list \<Rightarrow> py_error + Recommendation" where
  "line_recommendation sev parts =
     (case (if CHR '']'' \<in> set (parts ! 0)
            then map_sum id strip (split1_second CHR '']'' (parts ! 0))
            else Inr ''general'') of
        Inl e \<Rightarrow> Inl e
      | Inr category_part \<Rightarrow>
          (let ttl = (if length parts > 1 then strip (parts ! 1) else [])
           in case for_each scan_part (None, None, None) (drop 2 parts) of
                Inl e \<Rightarrow> Inl e
              | Inr found \<Rightarrow>
                  (let impact = snd (snd found)
                   in Inr \<lparr> severity = sev,
                            category = str_replace '' '' ''_'' (lower category_part),
                            title = ttl,
                            description =
                              ttl @ ''. '' @ (case impact of None \<Rightarrow> [] | Some i \<Rightarrow> i),
                            current_value = fst found,
                            recommended_value = fst (snd found),
                            expected_impact = impact \<rparr>)))"

text \<open>The body of the loop over the lines; the state is \<open>(summary, recommendations)\<close>.\<close>

definition response_line ::
  "string \<times> Recommendation list \<Rightarrow> string \<Rightarrow> py_error + string \<times> Recommendation list" where
  "response_line st raw_line =
     (let line = strip raw_line
      in if takes_summary (fst st) line
         then Inr (strip (str_replace ''SUMMARY:'' [] (str_replace ''**SUMMARY**:'' [] line)),
                   snd st)
         else (case line_severity line of
                 None \<Rightarrow> Inr st
               | Some sev \<Rightarrow>
                   (let parts = split_on CHR ''|'' line
                    in if length parts \<ge> 2
                       then (case line_recommendation sev parts of
                               Inl e \<Rightarrow> Inl e
                             | Inr r \<Rightarrow> Inr (fst st, snd st @ [r]))
                       else Inr st)))"

definition parse_openai_response :: "string \<Rightarrow> py_error + string \<times> Recommendation list" where
  "parse_openai_response response_text =
     (case for_each response_line ([], []) (split_on newline response_text) of
        Inl e \<Rightarrow> Inl e
      | Inr st \<Rightarrow>
          Inr (if fst st = [] then ''Configuration analyzed. See recommendations below.''
               else fst st,
               snd st))"

text \<open>
  The capture of a field as the specification words it, to compare with the loop
  above: among the segments that, stripped and lower-cased, begin with the prefix, the
  last one gives the value, which is its text after the first colon, stripped.
\<close>

definition captured :: "string \<Rightarrow> string list \<Rightarrow> string option" where
  "captured prefix segs =
     (case filter (\<lambda>p. startswith (lower (strip p)) prefix) segs of
        [] \<Rightarrow> None
      | q # qs \<Rightarrow> Some (strip (text_after CHR '':'' (strip (last (q # qs))))))"

section \<open>ConfigAnalyzer.analyze (config_analyzer.py)\<close>

text \<open>
  The generative client is outside the program. \<open>None\<close> is an analyzer without a
  client; a client is a function that stands for everything between building the
  prompt and reading \<open>response.choices[0].message.content\<close>, and gives \<open>None\<close> when
  any of it raises. An exception of the response parser is caught by the same
  handler. The time stamp of the result is a parameter.
\<close>

type_synonym client = "SparkConfig \<Rightarrow> ExecutionMetrics option \<Rightarrow> string option"

text \<open>A client whose call raises, whatever the configuration.\<close>

definition failing_client :: client where
  "failing_client cfg mtr = None"

text \<open>A client that answers every call with the same text.\<close>

definition answering_client :: "string \<Rightarrow> client" where
  "answering_client content cfg mtr = Some content"

definition analyze ::
  "client option \<Rightarrow> string \<Rightarrow> SparkConfig \<Rightarrow> ExecutionMetrics option \<Rightarrow> AnalysisResult" where
  "analyze cl now cfg mtr =
     (let result = \<lparr> config = cfg, metrics = mtr, recommendations = [], summary = [],
                      analyzed_at = Some now \<rparr>;
          result = result\<lparr>recommendations := recommendations result @ rule_based_analysis cfg mtr\<rparr>
      in case cl of
           Some call \<Rightarrow>
             (case call cfg mtr of
                Some content \<Rightarrow>
                  (case parse_openai_response content of
                     Inr parsed \<Rightarrow>
                       result\<lparr>summary := fst parsed,
                              recommendations := recommendations result @ snd parsed\<rparr>
                   | Inl e \<Rightarrow>
                       result\<lparr>summary := ''Configuration analyzed using rule-based system.''\<rparr>)
              | None \<Rightarrow> result\<lparr>summary := ''Configuration analyzed using rule-based system.''\<rparr>)
         | None \<Rightarrow>
             result\<lparr>summary := ''Configuration analyzed using rule-based system. Set OPENAI_API_KEY for AI-powered insights.''\<rparr>)"

section \<open>Predicates of the proofs\<close>

text \<open>
  Every typed field of a record agrees with the raw setting of its canonical name: a
  string field is the raw value, an integer field is its conversion, and the flag is
  its comparison with \<open>true\<close>.
\<close>

definition defaults_consistent :: "SparkConfig \<Rightarrow> bool" where
  "defaults_consistent cfg =
     (driver_memory cfg = map_of (raw_configs cfg) ''spark.driver.memory''
    \<and> executor_memory cfg = map_of (raw_configs cfg) ''spark.executor.memory''
    \<and> executor_cores cfg = Option.bind (map_of (raw_configs cfg) ''spark.executor.cores'') py_int
    \<and> num_executors cfg = Option.bind (map_of (raw_configs cfg) ''spark.executor.instances'') py_int
    \<and> default_parallelism cfg
        = Option.bind (map_of (raw_configs cfg) ''spark.default.parallelism'') py_int
    \<and> shuffle_partitions cfg
        = Option.bind (map_of (raw_configs cfg) ''spark.sql.shuffle.partitions'') py_int
    \<and> dynamic_allocation_enabled cfg
        = (case map_of (raw_configs cfg) ''spark.dynamicAllocation.enabled'' of
             None \<Rightarrow> False | Some v \<Rightarrow> lower v = ''true'')
    \<and> app_name cfg = map_of (raw_configs cfg) ''spark.app.name'')"

text \<open>The same for the three fields that a \<open>--conf\<close> occurrence promotes.\<close>

definition conf_consistent :: "SparkConfig \<Rightarrow> bool" where
  "conf_consistent cfg =
     (default_parallelism cfg
        = Option.bind (map_of (raw_configs cfg) ''spark.default.parallelism'') py_int
    \<and> shuffle_partitions cfg
        = Option.bind (map_of (raw_configs cfg) ''spark.sql.shuffle.partitions'') py_int
    \<and> dynamic_allocation_enabled cfg
        = (case map_of (raw_configs cfg) ''spark.dynamicAllocation.enabled'' of
             None \<Rightarrow> False | Some v \<Rightarrow> lower v = ''true''))"

text \<open>A \<open>--conf\<close> pair whose key is an integer tunable and whose value does not convert.\<close>

definition bad_conf :: "string \<times> string \<Rightarrow> bool" where
  "bad_conf kv = (fst kv \<in> {''spark.default.parallelism'', ''spark.sql.shuffle.partitions''}
                  \<and> py_int (snd kv) = None)"


section \<open>Properties of the parser\<close>

subsection \<open>Missing files\<close>

text \<open>
  C3. A path that is not in the file system is parsed without an exception, by the
  dispatcher and by both dialect parsers, and the record returned carries the path as
  its \<open>source_file\<close>, no raw setting, and the default of every other field.
\<close>

theorem missing_file_default_record:
  "map_of fs file_path = None \<Longrightarrow>
     parse_file fs file_path = Inr (new_config file_path)
   \<and> parse_spark_defaults fs file_path = Inr (new_config file_path)
   \<and> parse_spark_submit_script fs file_path = Inr (new_config file_path)
   \<and> new_config file_path =
        \<lparr> source_file = file_path, driver_memory = None, executor_memory = None,
          executor_cores = None, num_executors = None, default_parallelism = None,
          shuffle_partitions = None, dynamic_allocation_enabled = False, app_name = None,
          deploy_mode = None, master = None, raw_configs = [] \<rparr>"
  by (simp add: parse_file_def parse_spark_defaults_def parse_spark_submit_script_def
      new_config_def)

theorem missing_file_default_record_witness:
  "map_of [(''conf/spark-defaults.conf'', ''spark.app.name demo'')] ''jobs/run.sh'' = None
   \<and> parse_file [(''conf/spark-defaults.conf'', ''spark.app.name demo'')] ''jobs/run.sh''
       = Inr (new_config ''jobs/run.sh'')
   \<and> raw_configs (new_config ''jobs/run.sh'') = []"
proof -
  have h: "map_of [(''conf/spark-defaults.conf'', ''spark.app.name demo'')] ''jobs/run.sh'' = None"
    by simp
  from missing_file_default_record [OF h] h show ?thesis
    by (simp add: new_config_def)
qed

subsection \<open>Loops and promotion\<close>

lemma for_each_append:
  "for_each body st (xs @ ys) =
     (case for_each body st xs of Inl e \<Rightarrow> Inl e | Inr st' \<Rightarrow> for_each body st' ys)"
  by (induction xs arbitrary: st) (auto split: sum.splits)

lemma promote_default_effect:
  assumes "promote_default cfg key val = Inr cfg'"
  shows "raw_configs cfg' = raw_configs cfg"
    and "driver_memory cfg' = (if key = ''spark.driver.memory'' then Some val else driver_memory cfg)"
    and "executor_memory cfg' = (if key = ''spark.executor.memory'' then Some val else executor_memory cfg)"
    and "executor_cores cfg' = (if key = ''spark.executor.cores'' then py_int val else executor_cores cfg)"
    and "num_executors cfg' = (if key = ''spark.executor.instances'' then py_int val else num_executors cfg)"
    and "default_parallelism cfg' = (if key = ''spark.default.parallelism'' then py_int val else default_parallelism cfg)"
    and "shuffle_partitions cfg' = (if key = ''spark.sql.shuffle.partitions'' then py_int val else shuffle_partitions cfg)"
    and "dynamic_allocation_enabled cfg' = (if key = ''spark.dynamicAllocation.enabled'' then lower val = ''true'' else dynamic_allocation_enabled cfg)"
    and "app_name cfg' = (if key = ''spark.app.name'' then Some val else app_name cfg)"
    and "source_file cfg' = source_file cfg"
  using assms
  by (auto simp: promote_default_def split: if_splits option.splits)

lemma promote_default_error: "promote_default cfg key val = Inl e \<Longrightarrow> e = ValueError"
  by (auto simp: promote_default_def split: if_splits option.splits)

lemma promote_default_fails_iff:
  "promote_default cfg key val = Inl ValueError \<longleftrightarrow>
     key \<in> {''spark.executor.cores'', ''spark.executor.instances'', ''spark.default.parallelism'',
            ''spark.sql.shuffle.partitions''} \<and> py_int val = None"
  by (auto simp: promote_default_def split: if_splits option.splits)

lemma map_of_update_at:
  "map_of (AList.update key val al) name = (if key = name then Some val else map_of al name)"
  by (simp add: update_conv')

lemma defaults_line_skip: "line_setting l = None \<Longrightarrow> defaults_line cfg l = Inr cfg"
  by (simp add: defaults_line_def)

lemma defaults_line_setting:
  "line_setting l = Some (key, val) \<Longrightarrow>
     defaults_line cfg l =
       promote_default (cfg\<lparr>raw_configs := AList.update key val (raw_configs cfg)\<rparr>) key val"
  by (simp add: defaults_line_def)

lemma defaults_line_consistent:
  assumes "defaults_consistent cfg" and "defaults_line cfg l = Inr cfg'"
  shows "defaults_consistent cfg'"
proof (cases "line_setting l")
  case None
  with assms show ?thesis by (simp add: defaults_line_skip)
next
  case (Some kv)
  obtain key val where kv: "kv = (key, val)" by (cases kv)
  let ?c = "cfg\<lparr>raw_configs := AList.update key val (raw_configs cfg)\<rparr>"
  from assms(2) Some kv have p: "promote_default ?c key val = Inr cfg'"
    by (simp add: defaults_line_setting)
  note e = promote_default_effect[OF p]
  from assms(1) have i:
    "driver_memory cfg = map_of (raw_configs cfg) ''spark.driver.memory''"
    "executor_memory cfg = map_of (raw_configs cfg) ''spark.executor.memory''"
    "executor_cores cfg = Option.bind (map_of (raw_configs cfg) ''spark.executor.cores'') py_int"
    "num_executors cfg = Option.bind (map_of (raw_configs cfg) ''spark.executor.instances'') py_int"
    "default_parallelism cfg
        = Option.bind (map_of (raw_configs cfg) ''spark.default.parallelism'') py_int"
    "shuffle_partitions cfg
        = Option.bind (map_of (raw_configs cfg) ''spark.sql.shuffle.partitions'') py_int"
    "dynamic_allocation_enabled cfg
        = (case map_of (raw_configs cfg) ''spark.dynamicAllocation.enabled'' of
             None \<Rightarrow> False | Some v \<Rightarrow> lower v = ''true'')"
    "app_name cfg = map_of (raw_configs cfg) ''spark.app.name''"
    by (simp_all add: defaults_consistent_def)
  have 1: "driver_memory cfg' = map_of (raw_configs cfg') ''spark.driver.memory''"
    by (simp add: e(1) e(2) map_of_update_at i(1))
  have 2: "executor_memory cfg' = map_of (raw_configs cfg') ''spark.executor.memory''"
    by (simp add: e(1) e(3) map_of_update_at i(2))
  have 3: "executor_cores cfg' = Option.bind (map_of (raw_configs cfg') ''spark.executor.cores'') py_int"
    by (simp add: e(1) e(4) map_of_update_at i(3))
  have 4: "num_executors cfg' = Option.bind (map_of (raw_configs cfg') ''spark.executor.instances'') py_int"
    by (simp add: e(1) e(5) map_of_update_at i(4))
  have 5: "default_parallelism cfg'
        = Option.bind (map_of (raw_configs cfg') ''spark.default.parallelism'') py_int"
    by (simp add: e(1) e(6) map_of_update_at i(5))
  have 6: "shuffle_partitions cfg'
        = Option.bind (map_of (raw_configs cfg') ''spark.sql.shuffle.partitions'') py_int"
    by (simp add: e(1) e(7) map_of_update_at i(6))
  have 7: "dynamic_allocation_enabled cfg'
        = (case map_of (raw_configs cfg') ''spark.dynamicAllocation.enabled'' of
             None \<Rightarrow> False | Some v \<Rightarrow> lower v = ''true'')"
    by (simp add: e(1) e(8) map_of_update_at i(7))
  have 8: "app_name cfg' = map_of (raw_configs cfg') ''spark.app.name''"
    by (simp add: e(1) e(9) map_of_update_at i(8))
  from 1 2 3 4 5 6 7 8 show ?thesis
    unfolding defaults_consistent_def by blast
qed

lemma for_each_invariant:
  assumes "P st" and "for_each body st xs = Inr st'"
    and "\<forall>s x s'. P s \<longrightarrow> body s x = Inr s' \<longrightarrow> P s'"
  shows "P st'"
  using assms(1,2)
proof (induction xs arbitrary: st)
  case Nil
  then show ?case by simp
next
  case (Cons x xs)
  then show ?case using assms(3) by (auto split: sum.splits)
qed

lemma new_config_consistent: "defaults_consistent (new_config p)"
  by (simp add: defaults_consistent_def new_config_def)

lemma parse_spark_defaults_consistent:
  assumes "parse_spark_defaults fs file_path = Inr cfg"
  shows "defaults_consistent cfg"
proof (cases "map_of fs file_path")
  case None
  with assms have "cfg = new_config file_path" by (simp add: parse_spark_defaults_def)
  then show ?thesis by (simp add: new_config_consistent)
next
  case (Some content)
  with assms have "for_each defaults_line (new_config file_path) (readlines content) = Inr cfg"
    by (simp add: parse_spark_defaults_def)
  then show ?thesis
    using defaults_line_consistent
    by (intro for_each_invariant[where P = defaults_consistent and body = defaults_line,
          OF new_config_consistent]) blast+
qed

lemma pattern_step_conf_fields:
  assumes "pattern_step cmd cfg pat = Inr cfg'"
  shows "raw_configs cfg' = raw_configs cfg \<and> default_parallelism cfg' = default_parallelism cfg
    \<and> shuffle_partitions cfg' = shuffle_partitions cfg
    \<and> dynamic_allocation_enabled cfg' = dynamic_allocation_enabled cfg"
  using assms
  by (auto simp: pattern_step_def split: option.splits pattern_key.splits)

lemma pattern_step_consistent:
  "conf_consistent cfg \<Longrightarrow> pattern_step cmd cfg pat = Inr cfg' \<Longrightarrow> conf_consistent cfg'"
  using pattern_step_conf_fields[of cmd cfg pat cfg'] by (simp add: conf_consistent_def)

lemma conf_step_effect:
  assumes "conf_step cfg (key, val) = Inr cfg'"
  shows "raw_configs cfg' = AList.update key val (raw_configs cfg)"
    and "default_parallelism cfg'
          = (if key = ''spark.default.parallelism'' then py_int val else default_parallelism cfg)"
    and "shuffle_partitions cfg'
          = (if key = ''spark.sql.shuffle.partitions'' then py_int val else shuffle_partitions cfg)"
    and "dynamic_allocation_enabled cfg'
          = (if key = ''spark.dynamicAllocation.enabled'' then lower val = ''true''
             else dynamic_allocation_enabled cfg)"
  using assms
  by (auto simp: conf_step_def Let_def split: if_splits option.splits)

lemma conf_step_consistent:
  assumes "conf_consistent cfg" and "conf_step cfg kv = Inr cfg'"
  shows "conf_consistent cfg'"
proof -
  obtain key val where kv: "kv = (key, val)" by (cases kv)
  note e = conf_step_effect[OF assms(2)[unfolded kv]]
  from assms(1) have i:
    "default_parallelism cfg
        = Option.bind (map_of (raw_configs cfg) ''spark.default.parallelism'') py_int"
    "shuffle_partitions cfg
        = Option.bind (map_of (raw_configs cfg) ''spark.sql.shuffle.partitions'') py_int"
    "dynamic_allocation_enabled cfg
        = (case map_of (raw_configs cfg) ''spark.dynamicAllocation.enabled'' of
             None \<Rightarrow> False | Some v \<Rightarrow> lower v = ''true'')"
    by (simp_all add: conf_consistent_def)
  have 1: "default_parallelism cfg'
        = Option.bind (map_of (raw_configs cfg') ''spark.default.parallelism'') py_int"
    by (simp add: e(1) e(2) map_of_update_at i(1))
  have 2: "shuffle_partitions cfg'
        = Option.bind (map_of (raw_configs cfg') ''spark.sql.shuffle.partitions'') py_int"
    by (simp add: e(1) e(3) map_of_update_at i(2))
  have 3: "dynamic_allocation_enabled cfg'
        = (case map_of (raw_configs cfg') ''spark.dynamicAllocation.enabled'' of
             None \<Rightarrow> False | Some v \<Rightarrow> lower v = ''true'')"
    by (simp add: e(1) e(4) map_of_update_at i(3))
  from 1 2 3 show ?thesis unfolding conf_consistent_def by blast
qed

lemma name_fallback_consistent: "conf_consistent cfg \<Longrightarrow> conf_consistent (name_fallback cfg cmd)"
  by (auto simp: name_fallback_def conf_consistent_def split: option.splits)

lemma parse_spark_submit_script_consistent:
  assumes "parse_spark_submit_script fs file_path = Inr cfg"
  shows "conf_consistent cfg"
proof (cases "map_of fs file_path")
  case None
  with assms have "cfg = new_config file_path" by (simp add: parse_spark_submit_script_def)
  then show ?thesis by (simp add: conf_consistent_def new_config_def)
next
  case (Some content)
  define cmd where "cmd = join_str '' '' (join_lines (readlines content))"
  define cfg0 where "cfg0 = (case re_search match_app_name cmd of
       Some v \<Rightarrow> (new_config file_path)\<lparr>app_name := Some v\<rparr> | None \<Rightarrow> new_config file_path)"
  have c0: "conf_consistent cfg0"
    by (simp add: cfg0_def conf_consistent_def new_config_def split: option.splits)
  from assms Some obtain cfg1 cfg2 where
    s1: "for_each (pattern_step cmd) cfg0 patterns = Inr cfg1" and
    s2: "for_each conf_step cfg1 (finditer_conf cmd) = Inr cfg2" and
    s3: "cfg = name_fallback cfg2 cmd"
    by (auto simp: parse_spark_submit_script_def Let_def cmd_def cfg0_def split: sum.splits)
  have "conf_consistent cfg1"
    using pattern_step_consistent
    by (intro for_each_invariant[where P = conf_consistent and body = "pattern_step cmd",
          OF c0 s1]) blast
  then have "conf_consistent cfg2"
    using conf_step_consistent
    by (intro for_each_invariant[where P = conf_consistent and body = conf_step,
          OF _ s2]) blast+
  with s3 show ?thesis by (simp add: name_fallback_consistent)
qed

lemma defaults_line_raw:
  assumes "defaults_line cfg l = Inr cfg'"
  shows "map_of (raw_configs cfg') k =
     (case line_setting l of
        None \<Rightarrow> map_of (raw_configs cfg) k
      | Some kv \<Rightarrow> if fst kv = k then Some (snd kv) else map_of (raw_configs cfg) k)"
proof (cases "line_setting l")
  case None
  with assms show ?thesis by (simp add: defaults_line_skip)
next
  case (Some kv)
  obtain key val where kv: "kv = (key, val)" by (cases kv)
  from assms Some kv
  have "promote_default (cfg\<lparr>raw_configs := AList.update key val (raw_configs cfg)\<rparr>) key val
        = Inr cfg'"
    by (simp add: defaults_line_setting)
  from promote_default_effect(1)[OF this] Some kv show ?thesis
    by (simp add: map_of_update_at)
qed

lemma later_lines_keep_raw:
  assumes "for_each defaults_line cfg post = Inr cfg'"
    and "\<forall>l' \<in> set post. map_option fst (line_setting l') \<noteq> Some k"
  shows "map_of (raw_configs cfg') k = map_of (raw_configs cfg) k"
  using assms
proof (induction post arbitrary: cfg)
  case Nil
  then show ?case by simp
next
  case (Cons l ls)
  from Cons.prems(1) obtain c1 where
    s: "defaults_line cfg l = Inr c1" and r: "for_each defaults_line c1 ls = Inr cfg'"
    by (auto split: sum.splits)
  from Cons.prems(2) have "map_option fst (line_setting l) \<noteq> Some k" by simp
  with defaults_line_raw[OF s, of k]
  have "map_of (raw_configs c1) k = map_of (raw_configs cfg) k"
    by (auto split: option.splits)
  with Cons.IH[OF r] Cons.prems(2) show ?case by simp
qed

lemma last_line_sets_raw:
  assumes "for_each defaults_line cfg0 (pre @ l # post) = Inr cfg"
    and "line_setting l = Some (k, v)"
    and "\<forall>l' \<in> set post. map_option fst (line_setting l') \<noteq> Some k"
  shows "map_of (raw_configs cfg) k = Some v"
proof -
  from assms(1) obtain c1 c2 where
    "for_each defaults_line cfg0 pre = Inr c1" and
    s: "defaults_line c1 l = Inr c2" and r: "for_each defaults_line c2 post = Inr cfg"
    by (auto simp: for_each_append split: sum.splits)
  from defaults_line_raw[OF s, of k] assms(2) have "map_of (raw_configs c2) k = Some v"
    by simp
  with later_lines_keep_raw[OF r assms(3)] show ?thesis by simp
qed

lemma defaults_line_error: "defaults_line cfg l = Inl e \<Longrightarrow> e = ValueError"
  by (auto simp: defaults_line_def split: option.splits dest: promote_default_error)

lemma defaults_line_fails:
  assumes "line_setting l = Some (k, v)"
    and "k \<in> {''spark.executor.cores'', ''spark.executor.instances'',
               ''spark.default.parallelism'', ''spark.sql.shuffle.partitions''}"
    and "py_int v = None"
  shows "defaults_line cfg l = Inl ValueError"
  using assms by (simp add: defaults_line_setting promote_default_fails_iff)

lemma bad_line_fails_loop:
  assumes "l \<in> set ls" and "line_setting l = Some (k, v)"
    and "k \<in> {''spark.executor.cores'', ''spark.executor.instances'',
               ''spark.default.parallelism'', ''spark.sql.shuffle.partitions''}"
    and "py_int v = None"
  shows "for_each defaults_line cfg ls = Inl ValueError"
  using assms(1)
proof (induction ls arbitrary: cfg)
  case Nil
  then show ?case by simp
next
  case (Cons x xs)
  show ?case
  proof (cases "defaults_line cfg x")
    case (Inl e)
    then show ?thesis using defaults_line_error by simp
  next
    case (Inr c1)
    with defaults_line_fails[OF assms(2,3,4), of cfg] have "x \<noteq> l" by auto
    with Cons.prems have "l \<in> set xs" by simp
    with Cons.IH Inr show ?thesis by simp
  qed
qed

lemma digit_not_other:
  "is_digit c \<Longrightarrow> \<not> is_c_space c \<and> c \<noteq> CHR ''-'' \<and> c \<noteq> CHR ''+'' \<and> c \<noteq> CHR ''_''"
  by (auto simp: is_digit_def is_c_space_def Let_def)

lemma digit_not_space: "is_digit c \<Longrightarrow> \<not> is_space c"
  by (auto simp: is_digit_def is_space_def Let_def)

lemma split_on_no_separator: "d \<notin> set s \<Longrightarrow> split_on d s = [s]"
  by (induction s) auto

lemma py_int_digits:
  assumes "g \<noteq> []" and "list_all is_digit g"
  shows "py_int g
     = (if length g \<le> max_str_digits then Some (int (digits_to_nat g)) else None)"
proof -
  from assms obtain c cs where g: "g = c # cs" by (cases g) auto
  with assms(2) have c: "is_digit c" by simp
  from assms have "is_digit (last g)" by (simp add: list_all_iff)
  then have "\<not> is_c_space (last g)" using digit_not_other by blast
  with assms(1) have "dropWhile is_c_space (rev g) = rev g"
    by (cases "rev g") (auto simp: last_rev hd_rev[symmetric])
  moreover from c have "dropWhile is_c_space g = g" using digit_not_other g by auto
  ultimately have s: "rev (dropWhile is_c_space (rev (dropWhile is_c_space g))) = c # cs"
    using g by simp
  from assms(2) have "CHR ''_'' \<notin> set g" using digit_not_other by (auto simp: list_all_iff)
  then have "split_on CHR ''_'' g = [g]" by (rule split_on_no_separator)
  with assms have "int_body g
     = (if length g \<le> max_str_digits then Some (digits_to_nat g) else None)"
    by (simp add: int_body_def)
  with s c g show ?thesis using digit_not_other[of c] by (simp add: py_int_def)
qed

lemma re_search_Some: "re_search m s = Some g \<Longrightarrow> \<exists>t. m t = Some g"
proof (induction s)
  case Nil
  then have "m [] = Some g" by simp
  then show ?case by (rule exI)
next
  case (Cons c cs)
  show ?case
  proof (cases "m (c # cs)")
    case None
    with Cons show ?thesis by simp
  next
    case (Some a)
    with Cons.prems have "m (c # cs) = Some g" by simp
    then show ?thesis by (rule exI)
  qed
qed

lemma list_all_takeWhile: "list_all P (takeWhile P xs)"
  by (induction xs) simp_all

lemma match_flag_group:
  assumes "match_flag flag cls t = Some g"
  shows "g \<noteq> [] \<and> list_all cls g"
proof -
  from assms have g: "g = takeWhile cls (dropWhile is_space (drop (length flag) t))"
    and "g \<noteq> []"
    by (simp_all add: match_flag_def Let_def split: if_splits)
  moreover have "list_all cls g" unfolding g by (rule list_all_takeWhile)
  ultimately show ?thesis by simp
qed

lemma flag_group:
  assumes "re_search (match_flag flag cls) cmd = Some g"
  shows "g \<noteq> [] \<and> list_all cls g"
proof -
  from re_search_Some[OF assms] obtain t where "match_flag flag cls t = Some g" ..
  then show ?thesis by (rule match_flag_group)
qed

lemma digit_flag_converts:
  assumes "re_search (match_flag flag is_digit) cmd = Some g"
  shows "py_int g
     = (if length g \<le> max_str_digits then Some (int (digits_to_nat g)) else None)"
  using flag_group[OF assms] by (simp add: py_int_digits)

lemma startswith_append_self: "startswith (p @ s) p"
  by (simp add: startswith_def)

lemma match_flag_token:
  assumes "ws \<noteq> []" and "list_all is_space ws" and "\<not> is_space c"
  shows "match_flag flag is_digit (flag @ ws @ c # rest)
     = (if is_digit c then Some (takeWhile is_digit (c # rest)) else None)"
proof -
  from assms(2,3) have t: "takeWhile is_space (ws @ c # rest) = ws"
    by (induction ws) simp_all
  from assms(2,3) have d: "dropWhile is_space (ws @ c # rest) = c # rest"
    by (induction ws) simp_all
  show ?thesis
    using assms(1) by (simp add: match_flag_def startswith_append_self t d Let_def)
qed

lemma pattern_step_text:
  assumes "key = Master \<or> key = Deploy_mode \<or> key = Driver_memory \<or> key = Executor_memory"
  shows "\<exists>cfg'. pattern_step cmd cfg (key, flag, cls) = Inr cfg'"
  using assms by (cases key) (simp_all add: pattern_step_def split: option.splits)

lemma pattern_step_cores:
  "pattern_step cmd cfg (Executor_cores, flag, is_digit)
     = (case re_search (match_flag flag is_digit) cmd of
          None \<Rightarrow> Inr cfg
        | Some g \<Rightarrow>
            if length g \<le> max_str_digits
            then Inr (cfg\<lparr>executor_cores := Some (int (digits_to_nat g))\<rparr>)
            else Inl ValueError)"
proof (cases "re_search (match_flag flag is_digit) cmd")
  case None
  then show ?thesis by (simp add: pattern_step_def)
next
  case (Some g)
  with digit_flag_converts[OF Some] show ?thesis by (simp add: pattern_step_def)
qed

lemma pattern_step_executors:
  "pattern_step cmd cfg (Num_executors, flag, is_digit)
     = (case re_search (match_flag flag is_digit) cmd of
          None \<Rightarrow> Inr cfg
        | Some g \<Rightarrow>
            if length g \<le> max_str_digits
            then Inr (cfg\<lparr>num_executors := Some (int (digits_to_nat g))\<rparr>)
            else Inl ValueError)"
proof (cases "re_search (match_flag flag is_digit) cmd")
  case None
  then show ?thesis by (simp add: pattern_step_def)
next
  case (Some g)
  with digit_flag_converts[OF Some] show ?thesis by (simp add: pattern_step_def)
qed

lemma patterns_loop_fails_iff:
  "for_each (pattern_step cmd) cfg patterns = Inl e \<longleftrightarrow>
     e = ValueError
     \<and> ((\<exists>g. re_search (match_flag ''--executor-cores'' is_digit) cmd = Some g
              \<and> max_str_digits < length g)
        \<or> (\<exists>g. re_search (match_flag ''--num-executors'' is_digit) cmd = Some g
              \<and> max_str_digits < length g))"
proof -
  obtain c1 where 1: "pattern_step cmd cfg (Master, ''--master'', non_space) = Inr c1"
    using pattern_step_text[of Master] by blast
  obtain c2 where 2: "pattern_step cmd c1 (Deploy_mode, ''--deploy-mode'', non_space) = Inr c2"
    using pattern_step_text[of Deploy_mode] by blast
  obtain c3 where 3: "pattern_step cmd c2 (Driver_memory, ''--driver-memory'', non_space) = Inr c3"
    using pattern_step_text[of Driver_memory] by blast
  obtain c4 where 4: "pattern_step cmd c3 (Executor_memory, ''--executor-memory'', non_space) = Inr c4"
    using pattern_step_text[of Executor_memory] by blast
  have loop: "for_each (pattern_step cmd) cfg patterns
     = (case pattern_step cmd c4 (Executor_cores, ''--executor-cores'', is_digit) of
          Inl e \<Rightarrow> Inl e
        | Inr c5 \<Rightarrow> pattern_step cmd c5 (Num_executors, ''--num-executors'', is_digit))"
    by (simp add: patterns_def 1 2 3 4 split: sum.splits)
  show ?thesis
    unfolding loop pattern_step_cores pattern_step_executors
    by (auto split: option.splits)
qed

lemma conf_step_fails_iff: "conf_step cfg kv = Inl e \<longleftrightarrow> e = ValueError \<and> bad_conf kv"
proof -
  consider "fst kv = ''spark.default.parallelism''"
    | "fst kv \<noteq> ''spark.default.parallelism''" "fst kv = ''spark.sql.shuffle.partitions''"
    | "fst kv \<noteq> ''spark.default.parallelism''" "fst kv \<noteq> ''spark.sql.shuffle.partitions''"
    by blast
  then show ?thesis
  proof cases
    case 1
    then show ?thesis
      by (cases "py_int (snd kv)") (auto simp: conf_step_def bad_conf_def Let_def)
  next
    case 2
    then show ?thesis
      by (cases "py_int (snd kv)") (auto simp: conf_step_def bad_conf_def Let_def)
  next
    case 3
    then show ?thesis
      by (simp add: conf_step_def bad_conf_def Let_def)
  qed
qed

lemma conf_loop_fails_iff:
  "for_each conf_step cfg kvs = Inl e \<longleftrightarrow> e = ValueError \<and> (\<exists>kv \<in> set kvs. bad_conf kv)"
proof (induction kvs arbitrary: cfg)
  case Nil
  then show ?case by simp
next
  case (Cons kv kvs)
  show ?case
  proof (cases "conf_step cfg kv")
    case (Inl e')
    from conf_step_fails_iff[of cfg kv e'] Inl
    have e': "e' = ValueError" and bad: "bad_conf kv" by simp_all
    have "for_each conf_step cfg (kv # kvs) = Inl ValueError" using Inl e' by simp
    moreover have "\<exists>kv' \<in> set (kv # kvs). bad_conf kv'" using bad by simp
    ultimately show ?thesis by (simp only: sum.inject) blast
  next
    case (Inr c1)
    from conf_step_fails_iff[of cfg kv ValueError] Inr have nb: "\<not> bad_conf kv" by simp
    have "for_each conf_step cfg (kv # kvs) = for_each conf_step c1 kvs" using Inr by simp
    then have "for_each conf_step cfg (kv # kvs) = Inl e
       \<longleftrightarrow> e = ValueError \<and> (\<exists>kv' \<in> set kvs. bad_conf kv')"
      using Cons.IH[of c1] by (simp only:)
    also have "(\<exists>kv' \<in> set kvs. bad_conf kv') \<longleftrightarrow> (\<exists>kv' \<in> set (kv # kvs). bad_conf kv')"
      using nb by (simp only: list.set bex_simps insert_iff) blast
    finally show ?thesis .
  qed
qed

lemma script_fails_iff:
  assumes "map_of fs file_path = Some content"
  shows "parse_spark_submit_script fs file_path = Inl e \<longleftrightarrow>
     e = ValueError
     \<and> ((\<exists>g. re_search (match_flag ''--executor-cores'' is_digit)
                (join_str '' '' (join_lines (readlines content))) = Some g
              \<and> max_str_digits < length g)
        \<or> (\<exists>g. re_search (match_flag ''--num-executors'' is_digit)
                (join_str '' '' (join_lines (readlines content))) = Some g
              \<and> max_str_digits < length g)
        \<or> (\<exists>kv \<in> set (finditer_conf (join_str '' '' (join_lines (readlines content)))).
              bad_conf kv))"
proof -
  let ?cmd = "join_str '' '' (join_lines (readlines content))"
  let ?cfg0 = "case re_search match_app_name ?cmd of
       Some v \<Rightarrow> (new_config file_path)\<lparr>app_name := Some v\<rparr> | None \<Rightarrow> new_config file_path"
  let ?over = "(\<exists>g. re_search (match_flag ''--executor-cores'' is_digit) ?cmd = Some g
              \<and> max_str_digits < length g)
        \<or> (\<exists>g. re_search (match_flag ''--num-executors'' is_digit) ?cmd = Some g
              \<and> max_str_digits < length g)"
  have parse: "parse_spark_submit_script fs file_path =
      (case for_each (pattern_step ?cmd) ?cfg0 patterns of
         Inl e \<Rightarrow> Inl e
       | Inr cfg1 \<Rightarrow>
           (case for_each conf_step cfg1 (finditer_conf ?cmd) of
              Inl e \<Rightarrow> Inl e | Inr cfg2 \<Rightarrow> Inr (name_fallback cfg2 ?cmd)))"
    using assms by (simp add: parse_spark_submit_script_def Let_def)
  show ?thesis
  proof (cases "for_each (pattern_step ?cmd) ?cfg0 patterns")
    case (Inl e')
    with patterns_loop_fails_iff[of ?cmd ?cfg0 e']
    have e': "e' = ValueError" and over: ?over by simp_all
    from parse Inl e' have "parse_spark_submit_script fs file_path = Inl ValueError" by simp
    with over show ?thesis by (simp only: sum.inject) blast
  next
    case (Inr cfg1)
    with patterns_loop_fails_iff[of ?cmd ?cfg0 ValueError] have no: "\<not> ?over" by simp
    from parse Inr have "parse_spark_submit_script fs file_path = Inl e
       \<longleftrightarrow> for_each conf_step cfg1 (finditer_conf ?cmd) = Inl e"
      by (simp split: sum.splits)
    also have "\<dots> \<longleftrightarrow> e = ValueError \<and> (\<exists>kv \<in> set (finditer_conf ?cmd). bad_conf kv)"
      by (rule conf_loop_fails_iff)
    finally show ?thesis using no by blast
  qed
qed

lemma long_digit_run_raises:
  assumes "max_str_digits < n"
  shows "pattern_step (''--executor-cores '' @ replicate n CHR ''1'' @ '' app.py'') cfg
           (Executor_cores, ''--executor-cores'', is_digit) = Inl ValueError"
proof -
  from assms obtain k where n: "n = Suc k" by (cases n) auto
  have one: "is_digit CHR ''1''" and sp: "\<not> is_digit CHR '' ''"
    by (simp_all add: is_digit_def)
  have run: "takeWhile is_digit (replicate n CHR ''1'' @ '' app.py'') = replicate n CHR ''1''"
    using one sp by (induction n) simp_all
  have "match_flag ''--executor-cores'' is_digit
          (''--executor-cores'' @ '' '' @ CHR ''1'' # (replicate k CHR ''1'' @ '' app.py''))
        = Some (takeWhile is_digit (CHR ''1'' # (replicate k CHR ''1'' @ '' app.py'')))"
    using one by (subst match_flag_token) (simp_all add: is_space_def digit_not_space)
  then have m: "match_flag ''--executor-cores'' is_digit
          (''--executor-cores '' @ replicate n CHR ''1'' @ '' app.py'')
        = Some (replicate n CHR ''1'')"
    using run n by simp
  have "re_search (match_flag ''--executor-cores'' is_digit)
          (''--executor-cores '' @ replicate n CHR ''1'' @ '' app.py'')
        = Some (replicate n CHR ''1'')"
  proof -
    obtain c cs where cmd: "''--executor-cores '' @ replicate n CHR ''1'' @ '' app.py'' = c # cs"
      by simp
    show ?thesis unfolding cmd using m[unfolded cmd] by simp
  qed
  then show ?thesis using assms by (simp add: pattern_step_cores)
qed

subsection \<open>Typed fields and raw settings\<close>

text \<open>
  C1 (amended). In a record parsed from a settings file every typed field agrees with
  the raw setting of its canonical name: the two memory fields and the application
  name are the raw value, the four integer fields are its conversion, and the
  dynamic-allocation flag is its comparison with \<open>true\<close>; a field is absent exactly when
  the setting is. In a record parsed from a deploy script this holds for the fields
  promoted from \<open>--conf\<close> occurrences: \<open>default_parallelism\<close>, \<open>shuffle_partitions\<close> and
  \<open>dynamic_allocation_enabled\<close>.
\<close>

theorem typed_fields_in_raw_configs:
  "(parse_spark_defaults fs file_path = Inr cfg \<longrightarrow>
      driver_memory cfg = map_of (raw_configs cfg) ''spark.driver.memory''
    \<and> executor_memory cfg = map_of (raw_configs cfg) ''spark.executor.memory''
    \<and> executor_cores cfg = Option.bind (map_of (raw_configs cfg) ''spark.executor.cores'') py_int
    \<and> num_executors cfg
        = Option.bind (map_of (raw_configs cfg) ''spark.executor.instances'') py_int
    \<and> default_parallelism cfg
        = Option.bind (map_of (raw_configs cfg) ''spark.default.parallelism'') py_int
    \<and> shuffle_partitions cfg
        = Option.bind (map_of (raw_configs cfg) ''spark.sql.shuffle.partitions'') py_int
    \<and> dynamic_allocation_enabled cfg
        = (case map_of (raw_configs cfg) ''spark.dynamicAllocation.enabled'' of
             None \<Rightarrow> False | Some v \<Rightarrow> lower v = ''true'')
    \<and> app_name cfg = map_of (raw_configs cfg) ''spark.app.name'')
   \<and> (parse_spark_submit_script fs file_path = Inr cfg \<longrightarrow>
      default_parallelism cfg
        = Option.bind (map_of (raw_configs cfg) ''spark.default.parallelism'') py_int
    \<and> shuffle_partitions cfg
        = Option.bind (map_of (raw_configs cfg) ''spark.sql.shuffle.partitions'') py_int
    \<and> dynamic_allocation_enabled cfg
        = (case map_of (raw_configs cfg) ''spark.dynamicAllocation.enabled'' of
             None \<Rightarrow> False | Some v \<Rightarrow> lower v = ''true''))"
  using parse_spark_defaults_consistent[of fs file_path cfg]
    parse_spark_submit_script_consistent[of fs file_path cfg]
  unfolding defaults_consistent_def conf_consistent_def by blast

theorem typed_fields_in_raw_configs_witness:
  "parse_spark_defaults [(''spark-defaults.conf'', ''spark.executor.cores 4'')]
      ''spark-defaults.conf''
     = Inr ((new_config ''spark-defaults.conf'')
              \<lparr>executor_cores := Some 4, raw_configs := [(''spark.executor.cores'', ''4'')]\<rparr>)
   \<and> executor_cores ((new_config ''spark-defaults.conf'')
              \<lparr>executor_cores := Some 4, raw_configs := [(''spark.executor.cores'', ''4'')]\<rparr>)
     = Option.bind (map_of (raw_configs ((new_config ''spark-defaults.conf'')
              \<lparr>executor_cores := Some 4, raw_configs := [(''spark.executor.cores'', ''4'')]\<rparr>))
          ''spark.executor.cores'') py_int
   \<and> parse_spark_submit_script
        [(''job.sh'', ''spark-submit --conf spark.sql.shuffle.partitions=500 app.py'')] ''job.sh''
     = Inr ((new_config ''job.sh'')
              \<lparr>shuffle_partitions := Some 500,
               raw_configs := [(''spark.sql.shuffle.partitions'', ''500'')]\<rparr>)
   \<and> shuffle_partitions ((new_config ''job.sh'')
              \<lparr>shuffle_partitions := Some 500,
               raw_configs := [(''spark.sql.shuffle.partitions'', ''500'')]\<rparr>)
     = Option.bind (map_of (raw_configs ((new_config ''job.sh'')
              \<lparr>shuffle_partitions := Some 500,
               raw_configs := [(''spark.sql.shuffle.partitions'', ''500'')]\<rparr>))
          ''spark.sql.shuffle.partitions'') py_int"
proof -
  have d: "parse_spark_defaults [(''spark-defaults.conf'', ''spark.executor.cores 4'')]
      ''spark-defaults.conf''
     = Inr ((new_config ''spark-defaults.conf'')
              \<lparr>executor_cores := Some 4, raw_configs := [(''spark.executor.cores'', ''4'')]\<rparr>)"
    by code_simp
  have s: "parse_spark_submit_script
        [(''job.sh'', ''spark-submit --conf spark.sql.shuffle.partitions=500 app.py'')] ''job.sh''
     = Inr ((new_config ''job.sh'')
              \<lparr>shuffle_partitions := Some 500,
               raw_configs := [(''spark.sql.shuffle.partitions'', ''500'')]\<rparr>)"
    by code_simp
  from d s
    typed_fields_in_raw_configs
      [of "[(''spark-defaults.conf'', ''spark.executor.cores 4'')]" "''spark-defaults.conf''"
          "(new_config ''spark-defaults.conf'')
              \<lparr>executor_cores := Some 4, raw_configs := [(''spark.executor.cores'', ''4'')]\<rparr>"]
    typed_fields_in_raw_configs
      [of "[(''job.sh'', ''spark-submit --conf spark.sql.shuffle.partitions=500 app.py'')]"
          "''job.sh''"
          "(new_config ''job.sh'')
              \<lparr>shuffle_partitions := Some 500,
               raw_configs := [(''spark.sql.shuffle.partitions'', ''500'')]\<rparr>"]
  show ?thesis by blast
qed

theorem positional_flag_not_in_raw_configs_counterexample:
  "parse_spark_submit_script [(''job.sh'', ''spark-submit --driver-memory 4g app.py'')] ''job.sh''
     = Inr ((new_config ''job.sh'')\<lparr>driver_memory := Some ''4g''\<rparr>)
   \<and> map_of (raw_configs ((new_config ''job.sh'')\<lparr>driver_memory := Some ''4g''\<rparr>))
         ''spark.driver.memory'' = None"
proof -
  have "parse_spark_submit_script [(''job.sh'', ''spark-submit --driver-memory 4g app.py'')]
      ''job.sh'' = Inr ((new_config ''job.sh'')\<lparr>driver_memory := Some ''4g''\<rparr>)"
    by code_simp
  then show ?thesis by (simp add: new_config_def)
qed

text \<open>
  C10. When a settings file has several well-formed lines with the same setting name,
  the record holds the value of the last of them: as the raw setting, and, for a
  recognized name, as the promoted typed field.
\<close>

theorem last_occurrence_wins:
  "map_of fs file_path = Some content \<and> readlines content = pre @ l # post
   \<and> line_setting l = Some (k, v)
   \<and> (\<forall>l' \<in> set post. map_option fst (line_setting l') \<noteq> Some k)
   \<and> parse_spark_defaults fs file_path = Inr cfg \<longrightarrow>
     map_of (raw_configs cfg) k = Some v
   \<and> (k = ''spark.driver.memory'' \<longrightarrow> driver_memory cfg = Some v)
   \<and> (k = ''spark.executor.memory'' \<longrightarrow> executor_memory cfg = Some v)
   \<and> (k = ''spark.executor.cores'' \<longrightarrow> executor_cores cfg = py_int v)
   \<and> (k = ''spark.executor.instances'' \<longrightarrow> num_executors cfg = py_int v)
   \<and> (k = ''spark.default.parallelism'' \<longrightarrow> default_parallelism cfg = py_int v)
   \<and> (k = ''spark.sql.shuffle.partitions'' \<longrightarrow> shuffle_partitions cfg = py_int v)
   \<and> (k = ''spark.dynamicAllocation.enabled'' \<longrightarrow>
        dynamic_allocation_enabled cfg = (lower v = ''true''))
   \<and> (k = ''spark.app.name'' \<longrightarrow> app_name cfg = Some v)"
proof
  assume a: "map_of fs file_path = Some content \<and> readlines content = pre @ l # post
   \<and> line_setting l = Some (k, v)
   \<and> (\<forall>l' \<in> set post. map_option fst (line_setting l') \<noteq> Some k)
   \<and> parse_spark_defaults fs file_path = Inr cfg"
  then have m: "map_of fs file_path = Some content"
    and r: "readlines content = pre @ l # post"
    and p: "parse_spark_defaults fs file_path = Inr cfg"
    and ls: "line_setting l = Some (k, v)"
    and later: "\<forall>l' \<in> set post. map_option fst (line_setting l') \<noteq> Some k" by blast+
  from p m r have loop: "for_each defaults_line (new_config file_path) (pre @ l # post) = Inr cfg"
    by (simp add: parse_spark_defaults_def)
  from loop ls later have raw: "map_of (raw_configs cfg) k = Some v"
    by (rule last_line_sets_raw)
  from p have "defaults_consistent cfg" by (rule parse_spark_defaults_consistent)
  then have c:
    "driver_memory cfg = map_of (raw_configs cfg) ''spark.driver.memory''"
    "executor_memory cfg = map_of (raw_configs cfg) ''spark.executor.memory''"
    "executor_cores cfg = Option.bind (map_of (raw_configs cfg) ''spark.executor.cores'') py_int"
    "num_executors cfg = Option.bind (map_of (raw_configs cfg) ''spark.executor.instances'') py_int"
    "default_parallelism cfg
        = Option.bind (map_of (raw_configs cfg) ''spark.default.parallelism'') py_int"
    "shuffle_partitions cfg
        = Option.bind (map_of (raw_configs cfg) ''spark.sql.shuffle.partitions'') py_int"
    "dynamic_allocation_enabled cfg
        = (case map_of (raw_configs cfg) ''spark.dynamicAllocation.enabled'' of
             None \<Rightarrow> False | Some v \<Rightarrow> lower v = ''true'')"
    "app_name cfg = map_of (raw_configs cfg) ''spark.app.name''"
    by (simp_all add: defaults_consistent_def)
  have 1: "k = ''spark.driver.memory'' \<longrightarrow> driver_memory cfg = Some v"
    using raw c(1) by auto
  have 2: "k = ''spark.executor.memory'' \<longrightarrow> executor_memory cfg = Some v"
    using raw c(2) by auto
  have 3: "k = ''spark.executor.cores'' \<longrightarrow> executor_cores cfg = py_int v"
    using raw c(3) by auto
  have 4: "k = ''spark.executor.instances'' \<longrightarrow> num_executors cfg = py_int v"
    using raw c(4) by auto
  have 5: "k = ''spark.default.parallelism'' \<longrightarrow> default_parallelism cfg = py_int v"
    using raw c(5) by auto
  have 6: "k = ''spark.sql.shuffle.partitions'' \<longrightarrow> shuffle_partitions cfg = py_int v"
    using raw c(6) by auto
  have 7: "k = ''spark.dynamicAllocation.enabled'' \<longrightarrow>
        dynamic_allocation_enabled cfg = (lower v = ''true'')"
    using raw c(7) by auto
  have 8: "k = ''spark.app.name'' \<longrightarrow> app_name cfg = Some v"
    using raw c(8) by auto
  from raw 1 2 3 4 5 6 7 8 show "map_of (raw_configs cfg) k = Some v
   \<and> (k = ''spark.driver.memory'' \<longrightarrow> driver_memory cfg = Some v)
   \<and> (k = ''spark.executor.memory'' \<longrightarrow> executor_memory cfg = Some v)
   \<and> (k = ''spark.executor.cores'' \<longrightarrow> executor_cores cfg = py_int v)
   \<and> (k = ''spark.executor.instances'' \<longrightarrow> num_executors cfg = py_int v)
   \<and> (k = ''spark.default.parallelism'' \<longrightarrow> default_parallelism cfg = py_int v)
   \<and> (k = ''spark.sql.shuffle.partitions'' \<longrightarrow> shuffle_partitions cfg = py_int v)
   \<and> (k = ''spark.dynamicAllocation.enabled'' \<longrightarrow>
        dynamic_allocation_enabled cfg = (lower v = ''true''))
   \<and> (k = ''spark.app.name'' \<longrightarrow> app_name cfg = Some v)" by blast
qed

theorem last_occurrence_wins_witness:
  "map_of [(''spark-defaults.conf'',
            ''spark.executor.cores 2'' @ [newline] @ ''spark.executor.cores=4'' @ [newline]
              @ ''spark.app.name demo'')] ''spark-defaults.conf''
     = Some (''spark.executor.cores 2'' @ [newline] @ ''spark.executor.cores=4'' @ [newline]
              @ ''spark.app.name demo'')
   \<and> readlines (''spark.executor.cores 2'' @ [newline] @ ''spark.executor.cores=4'' @ [newline]
              @ ''spark.app.name demo'')
     = [''spark.executor.cores 2'' @ [newline]] @ (''spark.executor.cores=4'' @ [newline])
         # [''spark.app.name demo'']
   \<and> line_setting (''spark.executor.cores=4'' @ [newline]) = Some (''spark.executor.cores'', ''4'')
   \<and> map_option fst (line_setting ''spark.app.name demo'') \<noteq> Some ''spark.executor.cores''
   \<and> parse_spark_defaults
        [(''spark-defaults.conf'',
          ''spark.executor.cores 2'' @ [newline] @ ''spark.executor.cores=4'' @ [newline]
            @ ''spark.app.name demo'')] ''spark-defaults.conf''
     = Inr ((new_config ''spark-defaults.conf'')
              \<lparr>executor_cores := Some 4, app_name := Some ''demo'',
               raw_configs := [(''spark.executor.cores'', ''4''), (''spark.app.name'', ''demo'')]\<rparr>)
   \<and> map_of (raw_configs ((new_config ''spark-defaults.conf'')
              \<lparr>executor_cores := Some 4, app_name := Some ''demo'',
               raw_configs := [(''spark.executor.cores'', ''4''), (''spark.app.name'', ''demo'')]\<rparr>))
         ''spark.executor.cores'' = Some ''4''
   \<and> executor_cores ((new_config ''spark-defaults.conf'')
              \<lparr>executor_cores := Some 4, app_name := Some ''demo'',
               raw_configs := [(''spark.executor.cores'', ''4''), (''spark.app.name'', ''demo'')]\<rparr>)
     = py_int ''4''"
proof -
  let ?content = "''spark.executor.cores 2'' @ [newline] @ ''spark.executor.cores=4'' @ [newline]
              @ ''spark.app.name demo''"
  let ?cfg = "(new_config ''spark-defaults.conf'')
              \<lparr>executor_cores := Some 4, app_name := Some ''demo'',
               raw_configs := [(''spark.executor.cores'', ''4''), (''spark.app.name'', ''demo'')]\<rparr>"
  have m: "map_of [(''spark-defaults.conf'', ?content)] ''spark-defaults.conf'' = Some ?content"
    by simp
  have r: "readlines ?content
     = [''spark.executor.cores 2'' @ [newline]] @ (''spark.executor.cores=4'' @ [newline])
         # [''spark.app.name demo'']"
    by code_simp
  have ls: "line_setting (''spark.executor.cores=4'' @ [newline])
      = Some (''spark.executor.cores'', ''4'')"
    by code_simp
  have other: "map_option fst (line_setting ''spark.app.name demo'') \<noteq> Some ''spark.executor.cores''"
    by code_simp
  then have later: "\<forall>l' \<in> set [''spark.app.name demo''].
         map_option fst (line_setting l') \<noteq> Some ''spark.executor.cores''"
    by simp
  have p: "parse_spark_defaults [(''spark-defaults.conf'', ?content)] ''spark-defaults.conf''
     = Inr ?cfg"
    by code_simp
  from m r ls later other p
    last_occurrence_wins
      [of "[(''spark-defaults.conf'', ?content)]" "''spark-defaults.conf''" ?content
          "[''spark.executor.cores 2'' @ [newline]]" "''spark.executor.cores=4'' @ [newline]"
          "[''spark.app.name demo'']" "''spark.executor.cores''" "''4''" ?cfg]
  show ?thesis by blast
qed

subsection \<open>Integer settings\<close>

text \<open>
  C4 (amended). In a settings file, a well-formed line whose name is one of the four
  integer settings and whose value \<open>int\<close> does not accept makes the parse raise
  \<open>ValueError\<close>. In a deploy script the patterns of \<open>--executor-cores\<close> and
  \<open>--num-executors\<close> match only where whitespace and a digit follow the flag: where the
  next token does not begin with a digit the flag is not matched, and where it does the
  group is the token's leading run of digits. A flag that no position matches is
  skipped without error and leaves the field as it is; a matched run of digits is
  converted, and the conversion raises \<open>ValueError\<close> only for a run of more than 4300
  digits. A deploy script raises exactly when one of the two runs is that long or a
  \<open>--conf\<close> occurrence of \<open>spark.default.parallelism\<close> or
  \<open>spark.sql.shuffle.partitions\<close> has a value that \<open>int\<close> does not accept, and then
  \<open>ValueError\<close>.
\<close>

theorem integer_setting_errors:
  "(map_of fs file_path = Some content \<and> l \<in> set (readlines content)
      \<and> line_setting l = Some (k, v)
      \<and> k \<in> {''spark.executor.cores'', ''spark.executor.instances'',
               ''spark.default.parallelism'', ''spark.sql.shuffle.partitions''}
      \<and> py_int v = None \<longrightarrow>
      parse_spark_defaults fs file_path = Inl ValueError)
   \<and> (ws \<noteq> [] \<and> list_all is_space ws \<and> \<not> is_space c \<longrightarrow>
      match_flag flag is_digit (flag @ ws @ c # rest)
        = (if is_digit c then Some (takeWhile is_digit (c # rest)) else None))
   \<and> pattern_step cmd cfg (Executor_cores, ''--executor-cores'', is_digit)
       = (case re_search (match_flag ''--executor-cores'' is_digit) cmd of
            None \<Rightarrow> Inr cfg
          | Some g \<Rightarrow>
              if length g \<le> max_str_digits
              then Inr (cfg\<lparr>executor_cores := Some (int (digits_to_nat g))\<rparr>)
              else Inl ValueError)
   \<and> pattern_step cmd cfg (Num_executors, ''--num-executors'', is_digit)
       = (case re_search (match_flag ''--num-executors'' is_digit) cmd of
            None \<Rightarrow> Inr cfg
          | Some g \<Rightarrow>
              if length g \<le> max_str_digits
              then Inr (cfg\<lparr>num_executors := Some (int (digits_to_nat g))\<rparr>)
              else Inl ValueError)
   \<and> (map_of fs file_path = Some content \<longrightarrow>
      (parse_spark_submit_script fs file_path = Inl e \<longleftrightarrow>
         e = ValueError
         \<and> ((\<exists>g. re_search (match_flag ''--executor-cores'' is_digit)
                    (join_str '' '' (join_lines (readlines content))) = Some g
                  \<and> max_str_digits < length g)
            \<or> (\<exists>g. re_search (match_flag ''--num-executors'' is_digit)
                    (join_str '' '' (join_lines (readlines content))) = Some g
                  \<and> max_str_digits < length g)
            \<or> (\<exists>kv \<in> set (finditer_conf (join_str '' '' (join_lines (readlines content)))).
                  fst kv \<in> {''spark.default.parallelism'', ''spark.sql.shuffle.partitions''}
                  \<and> py_int (snd kv) = None))))"
proof -
  have defaults: "map_of fs file_path = Some content \<and> l \<in> set (readlines content)
      \<and> line_setting l = Some (k, v)
      \<and> k \<in> {''spark.executor.cores'', ''spark.executor.instances'',
               ''spark.default.parallelism'', ''spark.sql.shuffle.partitions''}
      \<and> py_int v = None \<longrightarrow>
      parse_spark_defaults fs file_path = Inl ValueError"
  proof
    assume a: "map_of fs file_path = Some content \<and> l \<in> set (readlines content)
      \<and> line_setting l = Some (k, v)
      \<and> k \<in> {''spark.executor.cores'', ''spark.executor.instances'',
               ''spark.default.parallelism'', ''spark.sql.shuffle.partitions''}
      \<and> py_int v = None"
    then have m: "map_of fs file_path = Some content"
      and 1: "l \<in> set (readlines content)" and 2: "line_setting l = Some (k, v)"
      and 3: "k \<in> {''spark.executor.cores'', ''spark.executor.instances'',
               ''spark.default.parallelism'', ''spark.sql.shuffle.partitions''}"
      and 4: "py_int v = None" by blast+
    from 1 2 3 4
    have "for_each defaults_line (new_config file_path) (readlines content) = Inl ValueError"
      by (rule bad_line_fails_loop)
    with m show "parse_spark_defaults fs file_path = Inl ValueError"
      by (simp add: parse_spark_defaults_def)
  qed
  have token: "ws \<noteq> [] \<and> list_all is_space ws \<and> \<not> is_space c \<longrightarrow>
      match_flag flag is_digit (flag @ ws @ c # rest)
        = (if is_digit c then Some (takeWhile is_digit (c # rest)) else None)"
    using match_flag_token[of ws c flag rest] by blast
  have cores: "pattern_step cmd cfg (Executor_cores, ''--executor-cores'', is_digit)
       = (case re_search (match_flag ''--executor-cores'' is_digit) cmd of
            None \<Rightarrow> Inr cfg
          | Some g \<Rightarrow>
              if length g \<le> max_str_digits
              then Inr (cfg\<lparr>executor_cores := Some (int (digits_to_nat g))\<rparr>)
              else Inl ValueError)"
    by (rule pattern_step_cores)
  have executors: "pattern_step cmd cfg (Num_executors, ''--num-executors'', is_digit)
       = (case re_search (match_flag ''--num-executors'' is_digit) cmd of
            None \<Rightarrow> Inr cfg
          | Some g \<Rightarrow>
              if length g \<le> max_str_digits
              then Inr (cfg\<lparr>num_executors := Some (int (digits_to_nat g))\<rparr>)
              else Inl ValueError)"
    by (rule pattern_step_executors)
  have script: "map_of fs file_path = Some content \<longrightarrow>
      (parse_spark_submit_script fs file_path = Inl e \<longleftrightarrow>
         e = ValueError
         \<and> ((\<exists>g. re_search (match_flag ''--executor-cores'' is_digit)
                    (join_str '' '' (join_lines (readlines content))) = Some g
                  \<and> max_str_digits < length g)
            \<or> (\<exists>g. re_search (match_flag ''--num-executors'' is_digit)
                    (join_str '' '' (join_lines (readlines content))) = Some g
                  \<and> max_str_digits < length g)
            \<or> (\<exists>kv \<in> set (finditer_conf (join_str '' '' (join_lines (readlines content)))).
                  fst kv \<in> {''spark.default.parallelism'', ''spark.sql.shuffle.partitions''}
                  \<and> py_int (snd kv) = None)))"
    using script_fails_iff[of fs file_path content e] unfolding bad_conf_def by blast
  from defaults token cores executors script show ?thesis by blast
qed

theorem integer_setting_errors_witness:
  "map_of [(''spark-defaults.conf'', ''spark.executor.cores four'')] ''spark-defaults.conf''
     = Some ''spark.executor.cores four''
   \<and> ''spark.executor.cores four'' \<in> set (readlines ''spark.executor.cores four'')
   \<and> line_setting ''spark.executor.cores four'' = Some (''spark.executor.cores'', ''four'')
   \<and> py_int ''four'' = None
   \<and> parse_spark_defaults [(''spark-defaults.conf'', ''spark.executor.cores four'')]
        ''spark-defaults.conf'' = Inl ValueError
   \<and> '' '' \<noteq> [] \<and> list_all is_space '' '' \<and> \<not> is_space CHR ''a''
   \<and> match_flag ''--executor-cores'' is_digit (''--executor-cores'' @ '' '' @ CHR ''a'' # ''bc'')
     = None
   \<and> \<not> is_space CHR ''4''
   \<and> match_flag ''--num-executors'' is_digit (''--num-executors'' @ '' '' @ CHR ''4'' # ''x'')
     = Some ''4''
   \<and> map_of [(''job.sh'', ''spark-submit --conf spark.default.parallelism=many app.py'')] ''job.sh''
     = Some ''spark-submit --conf spark.default.parallelism=many app.py''
   \<and> finditer_conf (join_str '' '' (join_lines
         (readlines ''spark-submit --conf spark.default.parallelism=many app.py'')))
     = [(''spark.default.parallelism'', ''many'')]
   \<and> py_int ''many'' = None
   \<and> parse_spark_submit_script
        [(''job.sh'', ''spark-submit --conf spark.default.parallelism=many app.py'')] ''job.sh''
     = Inl ValueError"
proof -
  have m: "map_of [(''spark-defaults.conf'', ''spark.executor.cores four'')] ''spark-defaults.conf''
     = Some ''spark.executor.cores four''" by simp
  have r: "''spark.executor.cores four'' \<in> set (readlines ''spark.executor.cores four'')"
    by code_simp
  have ls: "line_setting ''spark.executor.cores four'' = Some (''spark.executor.cores'', ''four'')"
    by code_simp
  have k: "''spark.executor.cores'' \<in> {''spark.executor.cores'', ''spark.executor.instances'',
               ''spark.default.parallelism'', ''spark.sql.shuffle.partitions''}" by simp
  have i: "py_int ''four'' = None" by code_simp
  have d: "parse_spark_defaults [(''spark-defaults.conf'', ''spark.executor.cores four'')]
        ''spark-defaults.conf'' = Inl ValueError"
    using m r ls k i
      integer_setting_errors
        [where fs = "[(''spark-defaults.conf'', ''spark.executor.cores four'')]"
           and file_path = "''spark-defaults.conf''"
           and content = "''spark.executor.cores four''" and l = "''spark.executor.cores four''"
           and k = "''spark.executor.cores''" and v = "''four''"]
    by blast
  have w: "'' '' \<noteq> [] \<and> list_all is_space '' '' \<and> \<not> is_space CHR ''a'' \<and> \<not> is_space CHR ''4''"
    by (simp add: is_space_def Let_def)
  have da: "\<not> is_digit CHR ''a''" and d4: "is_digit CHR ''4''" and dx: "\<not> is_digit CHR ''x''"
    by (simp_all add: is_digit_def Let_def)
  have t1: "match_flag ''--executor-cores'' is_digit
        (''--executor-cores'' @ '' '' @ CHR ''a'' # ''bc'') = None"
    using w da
      integer_setting_errors
        [where ws = "'' ''" and c = "CHR ''a''" and flag = "''--executor-cores''"
           and rest = "''bc''"]
    by simp
  have t2: "match_flag ''--num-executors'' is_digit
        (''--num-executors'' @ '' '' @ CHR ''4'' # ''x'') = Some ''4''"
    using w d4 dx
      integer_setting_errors
        [where ws = "'' ''" and c = "CHR ''4''" and flag = "''--num-executors''"
           and rest = "''x''"]
    by simp
  have m2: "map_of [(''job.sh'', ''spark-submit --conf spark.default.parallelism=many app.py'')]
      ''job.sh'' = Some ''spark-submit --conf spark.default.parallelism=many app.py''" by simp
  have f: "finditer_conf (join_str '' '' (join_lines
         (readlines ''spark-submit --conf spark.default.parallelism=many app.py'')))
     = [(''spark.default.parallelism'', ''many'')]" by code_simp
  have i2: "py_int ''many'' = None" by code_simp
  have "\<exists>kv \<in> set (finditer_conf (join_str '' '' (join_lines
         (readlines ''spark-submit --conf spark.default.parallelism=many app.py'')))).
               fst kv \<in> {''spark.default.parallelism'', ''spark.sql.shuffle.partitions''}
               \<and> py_int (snd kv) = None"
    unfolding f using i2 by simp
  with m2 have s: "parse_spark_submit_script
        [(''job.sh'', ''spark-submit --conf spark.default.parallelism=many app.py'')] ''job.sh''
     = Inl ValueError"
    using integer_setting_errors
        [where fs = "[(''job.sh'', ''spark-submit --conf spark.default.parallelism=many app.py'')]"
           and file_path = "''job.sh''"
           and content = "''spark-submit --conf spark.default.parallelism=many app.py''"
           and e = ValueError]
    by blast
  from m r ls i d w t1 t2 m2 f i2 s show ?thesis by blast
qed

theorem non_numeric_flag_counterexample:
  "parse_spark_submit_script
     [(''job.sh'', ''spark-submit --executor-cores abc --num-executors 4x app.py'')] ''job.sh''
   = Inr ((new_config ''job.sh'')\<lparr>num_executors := Some 4\<rparr>)"
  by code_simp

subsection \<open>Continuation lines\<close>





























section \<open>Properties of the analyzer\<close>

subsection \<open>The rule battery\<close>








text \<open>
  C2. The analyzer's memory parser gives a kilobyte count the multiplier 1, the one of
  a megabyte count: \<open>20480k\<close>, which is twenty megabytes, is read as 20480, as \<open>20480m\<close>
  and \<open>20g\<close> are, and a driver memory of \<open>20480k\<close> draws the recommendation for
  excessive driver memory.
\<close>

theorem kilobytes_read_as_megabytes:
  "parse_memory_mb ''20480k'' = Some 20480
   \<and> parse_memory_mb ''20480m'' = Some 20480
   \<and> parse_memory_mb ''20g'' = Some 20480
   \<and> check_driver_memory ((new_config ''spark-defaults.conf'')\<lparr>driver_memory := Some ''20480k''\<rparr>)
      = [excessive_driver_memory ''20480k'']"
proof -
  have k: "parse_memory_mb ''20480k'' = Some 20480" by code_simp
  have m: "parse_memory_mb ''20480m'' = Some 20480" by code_simp
  have g: "parse_memory_mb ''20g'' = Some 20480" by code_simp
  from k have "check_driver_memory
      ((new_config ''spark-defaults.conf'')\<lparr>driver_memory := Some ''20480k''\<rparr>)
      = [excessive_driver_memory ''20480k'']"
    by (simp add: check_driver_memory_def new_config_def)
  with k m g show ?thesis by blast
qed

text \<open>
  C5. The driver-memory check measures the setting with the analyzer's own parser,
  which reads the leading run of digits and the one letter right after it. A settings
  file that holds only \<open>spark.driver.memory=10.5g\<close> is parsed to a record with
  \<open>driver_memory = "10.5g"\<close>; that is 10752 MB, above the 10240 MB of the rule, but the
  parser reads 10 and the rule battery emits no recommendation for the driver memory.
  The same holds for \<open>spark.driver.memory 20 g\<close>, read as 20. The file of the scenario,
  \<open>spark.driver.memory=20g\<close>, is read as 20480 and the battery opens with "Excessive
  Driver Memory", critical, of category \<open>resource_allocation\<close>, recommending \<open>2g-4g\<close>.
\<close>

theorem fractional_driver_memory_not_flagged:
  "parse_spark_defaults [(''spark-defaults.conf'', ''spark.driver.memory=10.5g'')]
        ''spark-defaults.conf''
      = Inr ((new_config ''spark-defaults.conf'')
               \<lparr>driver_memory := Some ''10.5g'',
                raw_configs := [(''spark.driver.memory'', ''10.5g'')]\<rparr>)
   \<and> parse_memory_mb ''10.5g'' = Some 10
   \<and> rule_based_analysis
        ((new_config ''spark-defaults.conf'')
           \<lparr>driver_memory := Some ''10.5g'',
            raw_configs := [(''spark.driver.memory'', ''10.5g'')]\<rparr>) None
      = [enable_dynamic_allocation]
   \<and> parse_spark_defaults [(''spark-defaults.conf'', ''spark.driver.memory 20 g'')]
        ''spark-defaults.conf''
      = Inr ((new_config ''spark-defaults.conf'')
               \<lparr>driver_memory := Some ''20 g'',
                raw_configs := [(''spark.driver.memory'', ''20 g'')]\<rparr>)
   \<and> parse_memory_mb ''20 g'' = Some 20
   \<and> rule_based_analysis
        ((new_config ''spark-defaults.conf'')
           \<lparr>driver_memory := Some ''20 g'',
            raw_configs := [(''spark.driver.memory'', ''20 g'')]\<rparr>) None
      = [enable_dynamic_allocation]
   \<and> parse_spark_defaults [(''spark-defaults.conf'', ''spark.driver.memory=20g'')]
        ''spark-defaults.conf''
      = Inr ((new_config ''spark-defaults.conf'')
               \<lparr>driver_memory := Some ''20g'',
                raw_configs := [(''spark.driver.memory'', ''20g'')]\<rparr>)
   \<and> parse_memory_mb ''20g'' = Some 20480
   \<and> rule_based_analysis
        ((new_config ''spark-defaults.conf'')
           \<lparr>driver_memory := Some ''20g'',
            raw_configs := [(''spark.driver.memory'', ''20g'')]\<rparr>) None
      = [excessive_driver_memory ''20g'', enable_dynamic_allocation]
   \<and> severity (excessive_driver_memory ''20g'') = CRITICAL
   \<and> category (excessive_driver_memory ''20g'') = ''resource_allocation''
   \<and> title (excessive_driver_memory ''20g'') = ''Excessive Driver Memory''
   \<and> recommended_value (excessive_driver_memory ''20g'') = Some ''2g-4g''"
proof -
  have parsed1: "parse_spark_defaults [(''spark-defaults.conf'', ''spark.driver.memory=10.5g'')]
        ''spark-defaults.conf''
      = Inr ((new_config ''spark-defaults.conf'')
               \<lparr>driver_memory := Some ''10.5g'',
                raw_configs := [(''spark.driver.memory'', ''10.5g'')]\<rparr>)"
    by code_simp
  have mb1: "parse_memory_mb ''10.5g'' = Some 10"
    by code_simp
  have battery1: "rule_based_analysis
        ((new_config ''spark-defaults.conf'')
           \<lparr>driver_memory := Some ''10.5g'',
            raw_configs := [(''spark.driver.memory'', ''10.5g'')]\<rparr>) None
      = [enable_dynamic_allocation]"
    by (simp add: rule_based_analysis_def check_driver_memory_def mb1
        check_shuffle_partitions_def check_dynamic_allocation_def check_memory_spilling_def
        new_config_def)
  have parsed2: "parse_spark_defaults [(''spark-defaults.conf'', ''spark.driver.memory 20 g'')]
        ''spark-defaults.conf''
      = Inr ((new_config ''spark-defaults.conf'')
               \<lparr>driver_memory := Some ''20 g'',
                raw_configs := [(''spark.driver.memory'', ''20 g'')]\<rparr>)"
    by code_simp
  have mb2: "parse_memory_mb ''20 g'' = Some 20"
    by code_simp
  have battery2: "rule_based_analysis
        ((new_config ''spark-defaults.conf'')
           \<lparr>driver_memory := Some ''20 g'',
            raw_configs := [(''spark.driver.memory'', ''20 g'')]\<rparr>) None
      = [enable_dynamic_allocation]"
    by (simp add: rule_based_analysis_def check_driver_memory_def mb2
        check_shuffle_partitions_def check_dynamic_allocation_def check_memory_spilling_def
        new_config_def)
  have parsed3: "parse_spark_defaults [(''spark-defaults.conf'', ''spark.driver.memory=20g'')]
        ''spark-defaults.conf''
      = Inr ((new_config ''spark-defaults.conf'')
               \<lparr>driver_memory := Some ''20g'',
                raw_configs := [(''spark.driver.memory'', ''20g'')]\<rparr>)"
    by code_simp
  have mb3: "parse_memory_mb ''20g'' = Some 20480"
    by code_simp
  have battery3: "rule_based_analysis
        ((new_config ''spark-defaults.conf'')
           \<lparr>driver_memory := Some ''20g'',
            raw_configs := [(''spark.driver.memory'', ''20g'')]\<rparr>) None
      = [excessive_driver_memory ''20g'', enable_dynamic_allocation]"
    by (simp add: rule_based_analysis_def check_driver_memory_def mb3
        check_shuffle_partitions_def check_dynamic_allocation_def check_memory_spilling_def
        new_config_def)
  have fields: "severity (excessive_driver_memory ''20g'') = CRITICAL
     \<and> category (excessive_driver_memory ''20g'') = ''resource_allocation''
     \<and> title (excessive_driver_memory ''20g'') = ''Excessive Driver Memory''
     \<and> recommended_value (excessive_driver_memory ''20g'') = Some ''2g-4g''"
    by (simp add: excessive_driver_memory_def)
  from parsed1 mb1 battery1 parsed2 mb2 battery2 parsed3 mb3 battery3 fields
  show ?thesis by blast
qed




subsection \<open>The response parser\<close>

lemma lower_char_colon: "lower_char c = CHR '':'' \<Longrightarrow> c = CHR '':''"
proof (cases "65 \<le> (of_char c :: nat) \<and> (of_char c :: nat) \<le> 90")
  case True
  then have "lower_char c = char_of ((of_char c :: nat) + 32)" by (simp add: lower_char_def)
  moreover assume "lower_char c = CHR '':''"
  ultimately have "char_of ((of_char c :: nat) + 32) = CHR '':''" by simp
  then have "of_char (char_of ((of_char c :: nat) + 32)) = (of_char CHR '':'' :: nat)" by simp
  then have "((of_char c :: nat) + 32) mod 256 = 58" by simp
  with True show ?thesis by simp
next
  case False
  moreover assume "lower_char c = CHR '':''"
  ultimately show ?thesis by (auto simp add: lower_char_def Let_def)
qed

lemma startswith_lower_colon:
  assumes "startswith (lower s) p" and "CHR '':'' \<in> set p"
  shows "CHR '':'' \<in> set s"
proof -
  from assms have "CHR '':'' \<in> set (take (length p) (map lower_char s))"
    by (simp add: startswith_def lower_def)
  then have "CHR '':'' \<in> set (map lower_char s)" by (rule in_set_takeD)
  then obtain c where "c \<in> set s" "lower_char c = CHR '':''" by auto
  then show ?thesis using lower_char_colon by auto
qed

lemma split1_second_found: "d \<in> set s \<Longrightarrow> split1_second d s = Inr (text_after d s)"
  by (simp add: split1_second_def)

lemma captured_Cons:
  "captured prefix (x # xs) =
     (case captured prefix xs of
        Some v \<Rightarrow> Some v
      | None \<Rightarrow> if startswith (lower (strip x)) prefix
                then Some (strip (text_after CHR '':'' (strip x))) else None)"
  by (simp add: captured_def split: list.splits)

lemma prefixes_exclusive:
  "startswith s ''current:'' \<Longrightarrow> \<not> startswith s ''recommended:'' \<and> \<not> startswith s ''impact:''"
  "startswith s ''recommended:'' \<Longrightarrow> \<not> startswith s ''impact:''"
  by (cases s; simp add: startswith_def)+

lemma scan_part_value:
  "scan_part (a, b, c) x =
     Inr (if startswith (lower (strip x)) ''current:''
          then Some (strip (text_after CHR '':'' (strip x))) else a,
          if startswith (lower (strip x)) ''recommended:''
          then Some (strip (text_after CHR '':'' (strip x))) else b,
          if startswith (lower (strip x)) ''impact:''
          then Some (strip (text_after CHR '':'' (strip x))) else c)"
proof -
  have colon: "CHR '':'' \<in> set (strip x)"
    if "startswith (lower (strip x)) p" "CHR '':'' \<in> set p" for p
    using that by (rule startswith_lower_colon)
  show ?thesis
    using prefixes_exclusive[of "lower (strip x)"]
    by (auto simp: scan_part_def Let_def split1_second_found colon)
qed

lemma scan_parts_captured:
  "for_each scan_part (a, b, c) segs =
     Inr (case captured ''current:'' segs of None \<Rightarrow> a | Some v \<Rightarrow> Some v,
          case captured ''recommended:'' segs of None \<Rightarrow> b | Some v \<Rightarrow> Some v,
          case captured ''impact:'' segs of None \<Rightarrow> c | Some v \<Rightarrow> Some v)"
proof (induction segs arbitrary: a b c)
  case Nil
  then show ?case by (simp add: captured_def)
next
  case (Cons x xs)
  show ?case
    by (simp only: for_each.simps scan_part_value sum.case Cons.IH captured_Cons)
       (simp split: option.splits)
qed

lemma startswith_append: "startswith s p \<Longrightarrow> s = p @ drop (length p) s"
  by (metis append_take_drop_id startswith_def)

lemma tagged_cases:
  assumes "line_severity line = Some sev"
  obtains r where "line = ''[CRITICAL]'' @ r" | r where "line = ''[WARNING]'' @ r"
    | r where "line = ''[INFO]'' @ r"
proof -
  from assms consider "startswith line ''[CRITICAL]''" | "startswith line ''[WARNING]''"
    | "startswith line ''[INFO]''"
    by (auto simp: line_severity_def split: if_splits)
  then show ?thesis using that startswith_append by cases blast+
qed

lemma tagged_not_summary:
  assumes "line_severity line = Some sev"
  shows "\<not> takes_summary smry line"
proof -
  have "list_ex (\<lambda>x. contains (upper line) x) [''CRITICAL'', ''WARNING'', ''INFO'', ''SUGGESTION'']"
    using assms by (rule tagged_cases) (simp_all add: upper_def upper_char_def startswith_def)
  then show ?thesis by (simp add: takes_summary_def)
qed

lemma split_on_nonempty: "split_on d s \<noteq> []"
  by (induction s) (auto split: list.splits)

lemma split_on_head_append:
  "d \<notin> set t \<Longrightarrow> split_on d (t @ r) ! 0 = t @ split_on d r ! 0"
proof (induction t)
  case Nil
  then show ?case by simp
next
  case (Cons c t)
  then show ?case using split_on_nonempty[of d "t @ r"]
    by (auto split: list.splits)
qed

lemma tagged_bracket:
  assumes "line_severity line = Some sev"
  shows "CHR '']'' \<in> set (split_on CHR ''|'' line ! 0)"
  using assms
proof (rule tagged_cases)
  fix r assume "line = ''[CRITICAL]'' @ r"
  then show ?thesis using split_on_head_append[of "CHR ''|''" "''[CRITICAL]''" r] by simp
next
  fix r assume "line = ''[WARNING]'' @ r"
  then show ?thesis using split_on_head_append[of "CHR ''|''" "''[WARNING]''" r] by simp
next
  fix r assume "line = ''[INFO]'' @ r"
  then show ?thesis using split_on_head_append[of "CHR ''|''" "''[INFO]''" r] by simp
qed

lemma line_recommendation_value:
  assumes "CHR '']'' \<in> set (parts ! 0)" and "2 \<le> length parts"
  shows "line_recommendation sev parts =
     Inr \<lparr> severity = sev,
           category = str_replace '' '' ''_'' (lower (strip (text_after CHR '']'' (parts ! 0)))),
           title = strip (parts ! 1),
           description = strip (parts ! 1) @ ''. ''
              @ (case captured ''impact:'' (drop 2 parts) of None \<Rightarrow> [] | Some i \<Rightarrow> i),
           current_value = captured ''current:'' (drop 2 parts),
           recommended_value = captured ''recommended:'' (drop 2 parts),
           expected_impact = captured ''impact:'' (drop 2 parts) \<rparr>"
  using assms
  by (simp add: line_recommendation_def split1_second_found scan_parts_captured Let_def
      split: option.splits)

lemma response_line_tagged:
  assumes "line_severity (strip raw_line) = Some sev"
  shows "response_line st raw_line =
     (if 2 \<le> length (split_on CHR ''|'' (strip raw_line))
      then (case line_recommendation sev (split_on CHR ''|'' (strip raw_line)) of
              Inl e \<Rightarrow> Inl e | Inr r \<Rightarrow> Inr (fst st, snd st @ [r]))
      else Inr st)"
  using assms tagged_not_summary[OF assms]
  by (simp add: response_line_def Let_def)

lemma response_line_total: "\<exists>st'. response_line st raw_line = Inr st'"
proof (cases "line_severity (strip raw_line)")
  case None
  then show ?thesis by (simp add: response_line_def Let_def)
next
  case (Some sev)
  show ?thesis
    using tagged_bracket[OF Some]
    by (simp add: response_line_tagged[OF Some] line_recommendation_value)
qed

lemma for_each_total:
  assumes "\<And>st x. \<exists>st'. body st x = Inr st'"
  shows "\<exists>st'. for_each body st xs = Inr st'"
proof (induction xs arbitrary: st)
  case Nil
  then show ?case by simp
next
  case (Cons x xs)
  from assms obtain st1 where "body st x = Inr st1" by blast
  with Cons.IH[of st1] show ?case by simp
qed

lemma parse_openai_response_total: "\<exists>smry recs. parse_openai_response content = Inr (smry, recs)"
proof -
  obtain st where "for_each response_line ([], []) (split_on newline content) = Inr st"
    using for_each_total[of response_line, OF response_line_total] by blast
  then show ?thesis by (simp add: parse_openai_response_def)
qed

text \<open>
  A response line that, stripped, begins with one of the three tags is split on \<open>|\<close>.
  With at least two segments it appends one recommendation: the severity of the tag; as
  category the text of segment 0 after its first closing bracket, stripped, lower-cased
  and with spaces replaced by underscores; as title segment 1, stripped; and in
  \<open>current_value\<close>, \<open>recommended_value\<close> and \<open>expected_impact\<close> what the further
  segments give for the prefixes \<open>current:\<close>, \<open>recommended:\<close> and \<open>impact:\<close>, matched
  without regard to case. With a single segment it appends nothing. A line without a
  tag leaves the recommendations as they are. No line raises. The line of scenario 6
  parses to the recommendation the scenario gives.
\<close>

theorem tagged_line_parsing:
  "(line_severity (strip raw_line) = Some sev
      \<and> 2 \<le> length (split_on CHR ''|'' (strip raw_line)) \<longrightarrow>
      response_line (smry, recs) raw_line =
        Inr (smry, recs @
          [\<lparr> severity = sev,
             category = str_replace '' '' ''_''
               (lower (strip (text_after CHR '']'' (split_on CHR ''|'' (strip raw_line) ! 0)))),
             title = strip (split_on CHR ''|'' (strip raw_line) ! 1),
             description = strip (split_on CHR ''|'' (strip raw_line) ! 1) @ ''. ''
               @ (case captured ''impact:'' (drop 2 (split_on CHR ''|'' (strip raw_line))) of
                    None \<Rightarrow> [] | Some i \<Rightarrow> i),
             current_value = captured ''current:'' (drop 2 (split_on CHR ''|'' (strip raw_line))),
             recommended_value =
               captured ''recommended:'' (drop 2 (split_on CHR ''|'' (strip raw_line))),
             expected_impact =
               captured ''impact:'' (drop 2 (split_on CHR ''|'' (strip raw_line))) \<rparr>]))
   \<and> (line_severity (strip raw_line) = Some sev
      \<and> length (split_on CHR ''|'' (strip raw_line)) < 2 \<longrightarrow>
      response_line (smry, recs) raw_line = Inr (smry, recs))
   \<and> (line_severity (strip raw_line) = None \<longrightarrow>
      (\<exists>smry'. response_line (smry, recs) raw_line = Inr (smry', recs)))
   \<and> (\<exists>smry' recs'. parse_openai_response content = Inr (smry', recs'))
   \<and> parse_openai_response
        ''[WARNING] performance_tuning | Too many partitions | Current: 500 | Recommended: 100 | Impact: faster shuffles''
      = Inr (''Configuration analyzed. See recommendations below.'',
             [\<lparr> severity = WARNING, category = ''performance_tuning'',
                title = ''Too many partitions'',
                description = ''Too many partitions. faster shuffles'',
                current_value = Some ''500'', recommended_value = Some ''100'',
                expected_impact = Some ''faster shuffles'' \<rparr>])"
proof -
  have two: "line_severity (strip raw_line) = Some sev
      \<and> 2 \<le> length (split_on CHR ''|'' (strip raw_line)) \<longrightarrow>
      response_line (smry, recs) raw_line =
        Inr (smry, recs @
          [\<lparr> severity = sev,
             category = str_replace '' '' ''_''
               (lower (strip (text_after CHR '']'' (split_on CHR ''|'' (strip raw_line) ! 0)))),
             title = strip (split_on CHR ''|'' (strip raw_line) ! 1),
             description = strip (split_on CHR ''|'' (strip raw_line) ! 1) @ ''. ''
               @ (case captured ''impact:'' (drop 2 (split_on CHR ''|'' (strip raw_line))) of
                    None \<Rightarrow> [] | Some i \<Rightarrow> i),
             current_value = captured ''current:'' (drop 2 (split_on CHR ''|'' (strip raw_line))),
             recommended_value =
               captured ''recommended:'' (drop 2 (split_on CHR ''|'' (strip raw_line))),
             expected_impact =
               captured ''impact:'' (drop 2 (split_on CHR ''|'' (strip raw_line))) \<rparr>])"
  proof
    assume a: "line_severity (strip raw_line) = Some sev
      \<and> 2 \<le> length (split_on CHR ''|'' (strip raw_line))"
    then have sev: "line_severity (strip raw_line) = Some sev"
      and len: "2 \<le> length (split_on CHR ''|'' (strip raw_line))" by simp_all
    show "response_line (smry, recs) raw_line =
        Inr (smry, recs @
          [\<lparr> severity = sev,
             category = str_replace '' '' ''_''
               (lower (strip (text_after CHR '']'' (split_on CHR ''|'' (strip raw_line) ! 0)))),
             title = strip (split_on CHR ''|'' (strip raw_line) ! 1),
             description = strip (split_on CHR ''|'' (strip raw_line) ! 1) @ ''. ''
               @ (case captured ''impact:'' (drop 2 (split_on CHR ''|'' (strip raw_line))) of
                    None \<Rightarrow> [] | Some i \<Rightarrow> i),
             current_value = captured ''current:'' (drop 2 (split_on CHR ''|'' (strip raw_line))),
             recommended_value =
               captured ''recommended:'' (drop 2 (split_on CHR ''|'' (strip raw_line))),
             expected_impact =
               captured ''impact:'' (drop 2 (split_on CHR ''|'' (strip raw_line))) \<rparr>])"
      using len
      by (simp add: response_line_tagged[OF sev]
          line_recommendation_value[OF tagged_bracket[OF sev] len])
  qed
  have one: "line_severity (strip raw_line) = Some sev
      \<and> length (split_on CHR ''|'' (strip raw_line)) < 2 \<longrightarrow>
      response_line (smry, recs) raw_line = Inr (smry, recs)"
    by (simp add: response_line_tagged)
  have untagged: "line_severity (strip raw_line) = None \<longrightarrow>
      (\<exists>smry'. response_line (smry, recs) raw_line = Inr (smry', recs))"
    by (simp add: response_line_def Let_def)
  have total: "\<exists>smry' recs'. parse_openai_response content = Inr (smry', recs')"
    by (rule parse_openai_response_total)
  have scenario: "parse_openai_response
        ''[WARNING] performance_tuning | Too many partitions | Current: 500 | Recommended: 100 | Impact: faster shuffles''
      = Inr (''Configuration analyzed. See recommendations below.'',
             [\<lparr> severity = WARNING, category = ''performance_tuning'',
                title = ''Too many partitions'',
                description = ''Too many partitions. faster shuffles'',
                current_value = Some ''500'', recommended_value = Some ''100'',
                expected_impact = Some ''faster shuffles'' \<rparr>])"
    by code_simp
  from two one untagged total scenario show ?thesis by blast
qed

theorem tagged_line_parsing_witness:
  "line_severity (strip '' [INFO] Best Practices | Enable AQE | IMPACT: fewer small tasks '')
     = Some INFO
   \<and> 2 \<le> length (split_on CHR ''|''
            (strip '' [INFO] Best Practices | Enable AQE | IMPACT: fewer small tasks ''))
   \<and> response_line ([], []) '' [INFO] Best Practices | Enable AQE | IMPACT: fewer small tasks ''
     = Inr ([], [\<lparr> severity = INFO, category = ''best_practices'', title = ''Enable AQE'',
                    description = ''Enable AQE. fewer small tasks'',
                    current_value = None, recommended_value = None,
                    expected_impact = Some ''fewer small tasks'' \<rparr>])"
proof -
  let ?l = "'' [INFO] Best Practices | Enable AQE | IMPACT: fewer small tasks ''"
  have h: "line_severity (strip ?l) = Some INFO \<and> 2 \<le> length (split_on CHR ''|'' (strip ?l))"
    by code_simp
  have c: "str_replace '' '' ''_''
             (lower (strip (text_after CHR '']'' (split_on CHR ''|'' (strip ?l) ! 0))))
           = ''best_practices''"
    by code_simp
  have t: "strip (split_on CHR ''|'' (strip ?l) ! 1) = ''Enable AQE''"
    by code_simp
  have f: "captured ''current:'' (drop 2 (split_on CHR ''|'' (strip ?l))) = None
     \<and> captured ''recommended:'' (drop 2 (split_on CHR ''|'' (strip ?l))) = None
     \<and> captured ''impact:'' (drop 2 (split_on CHR ''|'' (strip ?l))) = Some ''fewer small tasks''"
    by code_simp
  from tagged_line_parsing [of ?l INFO "[]" "[]"] h
  have "response_line ([], []) ?l =
        Inr ([], [] @
          [\<lparr> severity = INFO,
             category = str_replace '' '' ''_''
               (lower (strip (text_after CHR '']'' (split_on CHR ''|'' (strip ?l) ! 0)))),
             title = strip (split_on CHR ''|'' (strip ?l) ! 1),
             description = strip (split_on CHR ''|'' (strip ?l) ! 1) @ ''. ''
               @ (case captured ''impact:'' (drop 2 (split_on CHR ''|'' (strip ?l))) of
                    None \<Rightarrow> [] | Some i \<Rightarrow> i),
             current_value = captured ''current:'' (drop 2 (split_on CHR ''|'' (strip ?l))),
             recommended_value = captured ''recommended:'' (drop 2 (split_on CHR ''|'' (strip ?l))),
             expected_impact = captured ''impact:'' (drop 2 (split_on CHR ''|'' (strip ?l))) \<rparr>])"
    by blast
  then have "response_line ([], []) ?l
     = Inr ([], [\<lparr> severity = INFO, category = ''best_practices'', title = ''Enable AQE'',
                    description = ''Enable AQE. fewer small tasks'',
                    current_value = None, recommended_value = None,
                    expected_impact = Some ''fewer small tasks'' \<rparr>])"
    by (simp only: c t f) simp
  with h show ?thesis by blast
qed

text \<open>
  C9. The category defaults to \<open>general\<close> only when segment 0 holds no closing bracket
  (\<open>... if ']' in parts[0] else 'general'\<close>), and segment 0 of a tagged line always
  holds the bracket of its tag, so the default is never taken: the line
  \<open>[WARNING] | Too many partitions\<close>, whose category text is empty, gives a
  recommendation of category \<open>""\<close>, not \<open>"general"\<close>.
\<close>

theorem empty_category_not_general:
  "line_severity ''[WARNING] | Too many partitions'' = Some WARNING
   \<and> CHR '']'' \<in> set (split_on CHR ''|'' ''[WARNING] | Too many partitions'' ! 0)
   \<and> parse_openai_response ''[WARNING] | Too many partitions''
     = Inr (''Configuration analyzed. See recommendations below.'',
            [\<lparr> severity = WARNING, category = [], title = ''Too many partitions'',
               description = ''Too many partitions. '', current_value = None,
               recommended_value = None, expected_impact = None \<rparr>])
   \<and> parse_openai_response ''[WARNING] | Too many partitions''
     \<noteq> Inr (''Configuration analyzed. See recommendations below.'',
            [\<lparr> severity = WARNING, category = ''general'', title = ''Too many partitions'',
               description = ''Too many partitions. '', current_value = None,
               recommended_value = None, expected_impact = None \<rparr>])"
proof -
  have sev: "line_severity ''[WARNING] | Too many partitions'' = Some WARNING"
    by code_simp
  have bracket: "CHR '']'' \<in> set (split_on CHR ''|'' ''[WARNING] | Too many partitions'' ! 0)"
    by code_simp
  have parsed: "parse_openai_response ''[WARNING] | Too many partitions''
     = Inr (''Configuration analyzed. See recommendations below.'',
            [\<lparr> severity = WARNING, category = [], title = ''Too many partitions'',
               description = ''Too many partitions. '', current_value = None,
               recommended_value = None, expected_impact = None \<rparr>])"
    by code_simp
  from sev bracket parsed show ?thesis by simp
qed

subsection \<open>The analysis\<close>

text \<open>
  C8 (amended). The recommendations of an analysis are those of the rule battery, in
  the order of its four checks, followed by those parsed from the client's response,
  in the order of the response. The summary is the parsed summary when the client
  answers; it is \<open>Configuration analyzed using rule-based system. Set OPENAI_API_KEY for
  AI-powered insights.\<close> when no client is configured, and \<open>Configuration analyzed using
  rule-based system.\<close> when the call fails; in both cases the recommendations are those
  of the rule battery alone.
\<close>

theorem analyze_result:
  "(cl = None \<longrightarrow>
      recommendations (analyze cl now cfg mtr) = rule_based_analysis cfg mtr
    \<and> summary (analyze cl now cfg mtr)
        = ''Configuration analyzed using rule-based system. Set OPENAI_API_KEY for AI-powered insights.'')
   \<and> (cl = Some call \<and> call cfg mtr = None \<longrightarrow>
      recommendations (analyze cl now cfg mtr) = rule_based_analysis cfg mtr
    \<and> summary (analyze cl now cfg mtr) = ''Configuration analyzed using rule-based system.'')
   \<and> (cl = Some call \<and> call cfg mtr = Some content \<longrightarrow>
      (\<exists>smry ai. parse_openai_response content = Inr (smry, ai)
         \<and> recommendations (analyze cl now cfg mtr) = rule_based_analysis cfg mtr @ ai
         \<and> summary (analyze cl now cfg mtr) = smry))
   \<and> rule_based_analysis cfg mtr =
        check_driver_memory cfg @ check_shuffle_partitions cfg mtr
          @ check_dynamic_allocation cfg @ check_memory_spilling cfg mtr"
proof -
  have absent: "cl = None \<longrightarrow>
      recommendations (analyze cl now cfg mtr) = rule_based_analysis cfg mtr
    \<and> summary (analyze cl now cfg mtr)
        = ''Configuration analyzed using rule-based system. Set OPENAI_API_KEY for AI-powered insights.''"
    by (simp add: analyze_def Let_def)
  have failed: "cl = Some call \<and> call cfg mtr = None \<longrightarrow>
      recommendations (analyze cl now cfg mtr) = rule_based_analysis cfg mtr
    \<and> summary (analyze cl now cfg mtr) = ''Configuration analyzed using rule-based system.''"
    by (simp add: analyze_def Let_def)
  have answered: "cl = Some call \<and> call cfg mtr = Some content \<longrightarrow>
      (\<exists>smry ai. parse_openai_response content = Inr (smry, ai)
         \<and> recommendations (analyze cl now cfg mtr) = rule_based_analysis cfg mtr @ ai
         \<and> summary (analyze cl now cfg mtr) = smry)"
  proof
    assume a: "cl = Some call \<and> call cfg mtr = Some content"
    obtain smry ai where p: "parse_openai_response content = Inr (smry, ai)"
      using parse_openai_response_total by blast
    with a have "recommendations (analyze cl now cfg mtr) = rule_based_analysis cfg mtr @ ai
         \<and> summary (analyze cl now cfg mtr) = smry"
      by (simp add: analyze_def Let_def)
    with p show "\<exists>smry ai. parse_openai_response content = Inr (smry, ai)
         \<and> recommendations (analyze cl now cfg mtr) = rule_based_analysis cfg mtr @ ai
         \<and> summary (analyze cl now cfg mtr) = smry" by blast
  qed
  have battery: "rule_based_analysis cfg mtr =
        check_driver_memory cfg @ check_shuffle_partitions cfg mtr
          @ check_dynamic_allocation cfg @ check_memory_spilling cfg mtr"
    by (simp add: rule_based_analysis_def)
  from absent failed answered battery show ?thesis by blast
qed

theorem analyze_result_witness:
  "answering_client
       (''SUMMARY: Driver oversized.'' @ [newline]
          @ ''[CRITICAL] resource_allocation | Reduce driver memory | Current: 20g | Recommended: 4g | Impact: lower cost''
          @ [newline] @ ''[INFO] best_practices | Enable AQE'')
       ((new_config ''job.conf'')\<lparr>driver_memory := Some ''20g'', shuffle_partitions := Some 500\<rparr>)
       (Some \<lparr> app_id = ''app-1'', metrics_app_name = ''job'', duration_ms = None,
               total_tasks = 0, failed_tasks = 0, total_stages = 0, failed_stages = 0,
               executor_memory_used = None, executor_memory_spilled = None,
               shuffle_read_bytes = None, shuffle_write_bytes = None,
               input_bytes = Some (5 * 1024 ^ 3), output_bytes = None,
               peak_memory_usage = None, gc_time_ms = None \<rparr>)
     = Some (''SUMMARY: Driver oversized.'' @ [newline]
          @ ''[CRITICAL] resource_allocation | Reduce driver memory | Current: 20g | Recommended: 4g | Impact: lower cost''
          @ [newline] @ ''[INFO] best_practices | Enable AQE'')
   \<and> recommendations (analyze
        (Some (answering_client
           (''SUMMARY: Driver oversized.'' @ [newline]
              @ ''[CRITICAL] resource_allocation | Reduce driver memory | Current: 20g | Recommended: 4g | Impact: lower cost''
              @ [newline] @ ''[INFO] best_practices | Enable AQE'')))
        ''2026-01-26T14:00:00''
        ((new_config ''job.conf'')\<lparr>driver_memory := Some ''20g'', shuffle_partitions := Some 500\<rparr>)
        (Some \<lparr> app_id = ''app-1'', metrics_app_name = ''job'', duration_ms = None,
                total_tasks = 0, failed_tasks = 0, total_stages = 0, failed_stages = 0,
                executor_memory_used = None, executor_memory_spilled = None,
                shuffle_read_bytes = None, shuffle_write_bytes = None,
                input_bytes = Some (5 * 1024 ^ 3), output_bytes = None,
                peak_memory_usage = None, gc_time_ms = None \<rparr>))
      = [excessive_driver_memory ''20g'', inefficient_shuffle_partitions 500,
         enable_dynamic_allocation,
         \<lparr> severity = CRITICAL, category = ''resource_allocation'',
           title = ''Reduce driver memory'',
           description = ''Reduce driver memory. lower cost'',
           current_value = Some ''20g'', recommended_value = Some ''4g'',
           expected_impact = Some ''lower cost'' \<rparr>,
         \<lparr> severity = INFO, category = ''best_practices'', title = ''Enable AQE'',
           description = ''Enable AQE. '', current_value = None,
           recommended_value = None, expected_impact = None \<rparr>]
   \<and> summary (analyze
        (Some (answering_client
           (''SUMMARY: Driver oversized.'' @ [newline]
              @ ''[CRITICAL] resource_allocation | Reduce driver memory | Current: 20g | Recommended: 4g | Impact: lower cost''
              @ [newline] @ ''[INFO] best_practices | Enable AQE'')))
        ''2026-01-26T14:00:00''
        ((new_config ''job.conf'')\<lparr>driver_memory := Some ''20g'', shuffle_partitions := Some 500\<rparr>)
        (Some \<lparr> app_id = ''app-1'', metrics_app_name = ''job'', duration_ms = None,
                total_tasks = 0, failed_tasks = 0, total_stages = 0, failed_stages = 0,
                executor_memory_used = None, executor_memory_spilled = None,
                shuffle_read_bytes = None, shuffle_write_bytes = None,
                input_bytes = Some (5 * 1024 ^ 3), output_bytes = None,
                peak_memory_usage = None, gc_time_ms = None \<rparr>))
      = ''Driver oversized.''
   \<and> failing_client
        ((new_config ''job.conf'')\<lparr>driver_memory := Some ''20g'', shuffle_partitions := Some 500\<rparr>)
        None = None
   \<and> recommendations (analyze (Some failing_client) ''2026-01-26T14:00:00''
        ((new_config ''job.conf'')\<lparr>driver_memory := Some ''20g'', shuffle_partitions := Some 500\<rparr>)
        None)
      = [excessive_driver_memory ''20g'', enable_dynamic_allocation]
   \<and> recommendations (analyze None ''2026-01-26T14:00:00''
        ((new_config ''job.conf'')\<lparr>driver_memory := Some ''20g'', shuffle_partitions := Some 500\<rparr>)
        None)
      = [excessive_driver_memory ''20g'', enable_dynamic_allocation]"
proof -
  let ?content = "''SUMMARY: Driver oversized.'' @ [newline]
          @ ''[CRITICAL] resource_allocation | Reduce driver memory | Current: 20g | Recommended: 4g | Impact: lower cost''
          @ [newline] @ ''[INFO] best_practices | Enable AQE''"
  let ?cfg = "(new_config ''job.conf'')
      \<lparr>driver_memory := Some ''20g'', shuffle_partitions := Some 500\<rparr>"
  let ?m = "\<lparr> app_id = ''app-1'', metrics_app_name = ''job'', duration_ms = None,
               total_tasks = 0, failed_tasks = 0, total_stages = 0, failed_stages = 0,
               executor_memory_used = None, executor_memory_spilled = None,
               shuffle_read_bytes = None, shuffle_write_bytes = None,
               input_bytes = Some (5 * 1024 ^ 3), output_bytes = None,
               peak_memory_usage = None, gc_time_ms = None \<rparr>"
  let ?ai = "[\<lparr> severity = CRITICAL, category = ''resource_allocation'',
           title = ''Reduce driver memory'',
           description = ''Reduce driver memory. lower cost'',
           current_value = Some ''20g'', recommended_value = Some ''4g'',
           expected_impact = Some ''lower cost'' \<rparr>,
         \<lparr> severity = INFO, category = ''best_practices'', title = ''Enable AQE'',
           description = ''Enable AQE. '', current_value = None,
           recommended_value = None, expected_impact = None \<rparr>]"
  have call: "answering_client ?content ?cfg (Some ?m) = Some ?content"
    by (simp add: answering_client_def)
  have fail: "failing_client ?cfg None = None"
    by (simp add: failing_client_def)
  have p: "parse_openai_response ?content = Inr (''Driver oversized.'', ?ai)"
    by code_simp
  have mb: "parse_memory_mb ''20g'' = Some 20480"
    by code_simp
  have a: "rule_based_analysis ?cfg (Some ?m)
     = [excessive_driver_memory ''20g'', inefficient_shuffle_partitions 500,
        enable_dynamic_allocation]"
    by (simp add: rule_based_analysis_def check_driver_memory_def mb
        check_shuffle_partitions_def less_than_10_def check_dynamic_allocation_def
        check_memory_spilling_def new_config_def)
  have a0: "rule_based_analysis ?cfg None
     = [excessive_driver_memory ''20g'', enable_dynamic_allocation]"
    by (simp add: rule_based_analysis_def check_driver_memory_def mb
        check_shuffle_partitions_def check_dynamic_allocation_def
        check_memory_spilling_def new_config_def)
  from analyze_result [of "Some (answering_client ?content)" "''2026-01-26T14:00:00''" ?cfg
         "Some ?m" "answering_client ?content" ?content] call p
  have "\<exists>smry ai. parse_openai_response ?content = Inr (smry, ai)
         \<and> recommendations (analyze (Some (answering_client ?content))
               ''2026-01-26T14:00:00'' ?cfg (Some ?m)) = rule_based_analysis ?cfg (Some ?m) @ ai
         \<and> summary (analyze (Some (answering_client ?content))
               ''2026-01-26T14:00:00'' ?cfg (Some ?m)) = smry"
    by blast
  then obtain smry ai where q: "parse_openai_response ?content = Inr (smry, ai)"
    and r: "recommendations (analyze (Some (answering_client ?content))
               ''2026-01-26T14:00:00'' ?cfg (Some ?m)) = rule_based_analysis ?cfg (Some ?m) @ ai"
    and u: "summary (analyze (Some (answering_client ?content))
               ''2026-01-26T14:00:00'' ?cfg (Some ?m)) = smry"
    by blast
  from q p have "(Inr (smry, ai) :: py_error + string \<times> Recommendation list)
      = Inr (''Driver oversized.'', ?ai)" by (rule trans[OF sym])
  then have "smry = ''Driver oversized.''" and "ai = ?ai"
    by (simp_all only: sum.inject prod.inject)
  with r u have answered: "recommendations (analyze (Some (answering_client ?content))
          ''2026-01-26T14:00:00'' ?cfg (Some ?m)) = rule_based_analysis ?cfg (Some ?m) @ ?ai
     \<and> summary (analyze (Some (answering_client ?content))
          ''2026-01-26T14:00:00'' ?cfg (Some ?m)) = ''Driver oversized.''"
    by (simp only:)
  from analyze_result [of "Some failing_client" "''2026-01-26T14:00:00''" ?cfg None
         failing_client] fail
  have failed: "recommendations (analyze (Some failing_client) ''2026-01-26T14:00:00'' ?cfg None)
      = rule_based_analysis ?cfg None"
    by blast
  from analyze_result [of None "''2026-01-26T14:00:00''" ?cfg None]
  have absent: "recommendations (analyze None ''2026-01-26T14:00:00'' ?cfg None)
      = rule_based_analysis ?cfg None"
    by blast
  from call fail answered failed absent show ?thesis
    unfolding a a0 by simp
qed

theorem two_fallback_summaries_counterexample:
  "summary (analyze None ''2026-01-26T14:00:00'' (new_config ''job.conf'') None)
     = ''Configuration analyzed using rule-based system. Set OPENAI_API_KEY for AI-powered insights.''
   \<and> summary (analyze (Some failing_client) ''2026-01-26T14:00:00'' (new_config ''job.conf'') None)
     = ''Configuration analyzed using rule-based system.''"
  by (simp add: analyze_def failing_client_def Let_def)

end
